theory Spec2Isabelle
  imports Main "HOL-Library.Char_ord" "HOL-Library.List_Lexorder" "HOL-Library.Product_Lexorder"
begin

section \<open>Values, text and errors\<close>

text \<open>
  Python text is modelled as a HOL \<open>string\<close>, one \<open>char\<close> per code point; HOL
  characters have 256 values, so the model covers text whose code points are below 256.
  The character classes below are the ones of \<open>str.isspace\<close>, \<open>str.isalnum\<close> and
  \<open>str.lower\<close> on that range.

  Fields and arguments that the source inspects dynamically (\<open>isinstance\<close>,
  \<open>is not True\<close>, truthiness) are dynamic values \<open>pyval\<close>; the others have their
  declared type.
\<close>

datatype pyval = PNone | PBool bool | PInt int | PStr string | PList "pyval list"

fun truthy :: "pyval \<Rightarrow> bool" where
  "truthy PNone = False"
| "truthy (PBool b) = b"
| "truthy (PInt i) = (i \<noteq> 0)"
| "truthy (PStr s) = (s \<noteq> [])"
| "truthy (PList xs) = (xs \<noteq> [])"

definition codepoint :: "char \<Rightarrow> nat" where
  "codepoint c = of_char c"

definition isspace :: "char \<Rightarrow> bool" where
  "isspace c = (codepoint c \<in> {9, 10, 11, 12, 13, 28, 29, 30, 31, 32, 133, 160})"

definition isalnum :: "char \<Rightarrow> bool" where
  "isalnum c = (let n = codepoint c in
     (48 \<le> n \<and> n \<le> 57) \<or> (65 \<le> n \<and> n \<le> 90) \<or> (97 \<le> n \<and> n \<le> 122) \<or>
     n \<in> {170, 178, 179, 181, 185, 186, 188, 189, 190} \<or>
     (192 \<le> n \<and> n \<le> 255 \<and> n \<noteq> 215 \<and> n \<noteq> 247))"

definition lower_char :: "char \<Rightarrow> char" where
  "lower_char c = (let n = codepoint c in
     if (65 \<le> n \<and> n \<le> 90) \<or> (192 \<le> n \<and> n \<le> 222 \<and> n \<noteq> 215)
     then char_of (n + 32) else c)"

definition lower :: "string \<Rightarrow> string" where
  "lower s = map lower_char s"

definition strip :: "string \<Rightarrow> string" where
  "strip s = rev (dropWhile isspace (rev (dropWhile isspace s)))"

text \<open>\<open>(method or "").strip().lower()\<close>, for an argument that is a string or \<open>None\<close>.\<close>

definition normalize_name :: "string option \<Rightarrow> string" where
  "normalize_name m = lower (strip (case m of None \<Rightarrow> [] | Some s \<Rightarrow> s))"

text \<open>
  Errors. Every exception class of the source is a constructor; its argument stands for
  the message: one constructor per message template of the source, carrying the values
  the template interpolates. An exception raised \<open>from e\<close> carries \<open>e\<close> as its cause.
\<close>

datatype validation_msg =
    InvalidModule string
  | TitleEmpty
  | PayloadEmpty
  | InvalidRiskLevel string
  | DisabledMustRemainTrue
  | TagsMustBeList
  | TagMustBeString
  | XssContextInvalid
  | MustBeNone string string
  | SelectorRequired string string
  | InvalidDbType string
  | InvalidOsType string
  | CreatedAtNaive
  | InvalidFromModule string nat validation_msg

datatype registry_msg =
    AlreadyRegistered string
  | NotRegistered string "string list"
  | RequiresSelector string string
  | MustReturnList string
  | ItemNotTemplate nat string

datatype encoding_msg =
    EncNotAString
  | EncPayloadEmpty
  | EncUnsupported "string option" "string list"

datatype obfuscation_msg =
    ObfNotAString
  | ObfPayloadEmpty
  | ObfUnsupported "string option" "string list"
  | ObfRefused

datatype export_msg =
    ItemNotPayloadTemplate nat
  | ItemViolatesSafety nat
  | MetaReservedKeys "string list"
  | ExportFailed

datatype pipeline_msg =
    GenerationFailed
  | EncodingFailed string
  | ObfuscationFailed string
  | OutputPathRequired
  | UnsupportedExportFormat string

datatype error =
    PayloadValidationError validation_msg
  | RegistryError registry_msg
  | ValueError "string option"
  | AttributeError
  | TypeError
  | OSError
  | EncodingError encoding_msg
  | ObfuscationError obfuscation_msg
  | JSONExportError export_msg "error option"
  | TXTExportError export_msg "error option"
  | PipelineError pipeline_msg "error option"

text \<open>Sequencing of fallible steps: an exception of the first step ends the computation.\<close>

definition bind_err :: "error + 'a \<Rightarrow> ('a \<Rightarrow> error + 'b) \<Rightarrow> error + 'b" where
  "bind_err r f = (case r of Inl e \<Rightarrow> Inl e | Inr x \<Rightarrow> f x)"

section \<open>Encodings (transforms/encoder.py)\<close>

text \<open>\<open>str.encode("utf-8")\<close> on code points below 256: one byte below 128, two above.\<close>

definition utf8_char :: "char \<Rightarrow> char list" where
  "utf8_char c = (let n = codepoint c in
     if n < 128 then [c] else [char_of (192 + n div 64), char_of (128 + n mod 64)])"

definition utf8_encode :: "string \<Rightarrow> char list" where
  "utf8_encode s = concat (map utf8_char s)"

definition hex_digit_lower :: "nat \<Rightarrow> char" where
  "hex_digit_lower n = ''0123456789abcdef'' ! (n mod 16)"

definition hex_digit_upper :: "nat \<Rightarrow> char" where
  "hex_digit_upper n = ''0123456789ABCDEF'' ! (n mod 16)"

text \<open>\<open>urllib.parse.quote(payload, safe="")\<close>: only letters, digits and \<open>_.-~\<close> stay.\<close>

definition url_unreserved :: "char \<Rightarrow> bool" where
  "url_unreserved b = (let n = codepoint b in
     (48 \<le> n \<and> n \<le> 57) \<or> (65 \<le> n \<and> n \<le> 90) \<or> (97 \<le> n \<and> n \<le> 122) \<or>
     n \<in> {45, 46, 95, 126})"

definition quote_byte :: "char \<Rightarrow> string" where
  "quote_byte b = (if url_unreserved b then [b]
     else [CHR ''%'', hex_digit_upper (codepoint b div 16), hex_digit_upper (codepoint b)])"

definition url_encode :: "string \<Rightarrow> string" where
  "url_encode payload = concat (map quote_byte (utf8_encode payload))"

definition b64_char :: "nat \<Rightarrow> char" where
  "b64_char n =
     ''ABCDEFGHIJKLMNOPQRSTUVWXYZabcdefghijklmnopqrstuvwxyz0123456789+/'' ! (n mod 64)"

fun b64encode :: "char list \<Rightarrow> string" where
  "b64encode [] = []"
| "b64encode [a] =
     [b64_char (codepoint a div 4), b64_char ((codepoint a mod 4) * 16), CHR ''='', CHR ''='']"
| "b64encode [a, b] =
     [b64_char (codepoint a div 4), b64_char ((codepoint a mod 4) * 16 + codepoint b div 16),
      b64_char ((codepoint b mod 16) * 4), CHR ''='']"
| "b64encode (a # b # c # rest) =
     [b64_char (codepoint a div 4), b64_char ((codepoint a mod 4) * 16 + codepoint b div 16),
      b64_char ((codepoint b mod 16) * 4 + codepoint c div 64), b64_char (codepoint c mod 64)]
     @ b64encode rest"

definition base64_encode :: "string \<Rightarrow> string" where
  "base64_encode payload = b64encode (utf8_encode payload)"

definition hexlify_byte :: "char \<Rightarrow> string" where
  "hexlify_byte b = [hex_digit_lower (codepoint b div 16), hex_digit_lower (codepoint b)]"

definition hex_encode :: "string \<Rightarrow> string" where
  "hex_encode payload = concat (map hexlify_byte (utf8_encode payload))"

definition ENCODING_METHODS :: "(string \<times> (string \<Rightarrow> string)) list" where
  "ENCODING_METHODS =
     [(''url'', url_encode), (''base64'', base64_encode), (''hex'', hex_encode)]"

definition list_supported_encodings :: "string list" where
  "list_supported_encodings = [''base64'', ''hex'', ''url'']"

text \<open>
  \<open>encode_payload\<close>. The encoders are total on the modelled text (no surrogate code
  points), so the final \<open>except\<close> of the source has no branch here.
\<close>

definition encode_payload :: "pyval \<Rightarrow> string option \<Rightarrow> error + string" where
  "encode_payload payload method =
     (case payload of
        PStr s \<Rightarrow>
          if strip s = [] then Inl (EncodingError EncPayloadEmpty)
          else (case map_of ENCODING_METHODS (normalize_name method) of
                  None \<Rightarrow> Inl (EncodingError (EncUnsupported method list_supported_encodings))
                | Some encoder \<Rightarrow> Inr (encoder s))
      | _ \<Rightarrow> Inl (EncodingError EncNotAString))"

definition is_encoding_error :: "error + 'a \<Rightarrow> bool" where
  "is_encoding_error r = (case r of Inl (EncodingError m) \<Rightarrow> True | _ \<Rightarrow> False)"

section \<open>Obfuscation (transforms/obfuscator.py)\<close>

text \<open>
  \<open>_TEMPLATE_MARKER_RE = re.compile(r"(<<.*?>>)|(\bTEMPLATE\b)", re.IGNORECASE)\<close>.
  \<open>lazy_until_close\<close> matches \<open>.*?>>\<close> at the start of its argument (the dot does
  not match a newline); \<open>search_bracket_marker\<close> tries \<open><<.*?>>\<close> at every position.
  \<open>search_template_word\<close> tries \<open>\bTEMPLATE\b\<close> at every position, its first
  argument telling whether the previous character is a word character (\<open>\w\<close>: alphanumeric
  or underscore).
\<close>

definition starts_with :: "string \<Rightarrow> string \<Rightarrow> bool" where
  "starts_with p s = (take (length p) s = p)"

fun lazy_until_close :: "string \<Rightarrow> bool" where
  "lazy_until_close [] = False"
| "lazy_until_close (c # cs) =
     (starts_with ''>>'' (c # cs) \<or> (c \<noteq> CHR 0x0A \<and> lazy_until_close cs))"

fun search_bracket_marker :: "string \<Rightarrow> bool" where
  "search_bracket_marker [] = False"
| "search_bracket_marker (c # cs) =
     ((starts_with ''<<'' (c # cs) \<and> lazy_until_close (drop 2 (c # cs)))
      \<or> search_bracket_marker cs)"

definition is_word_char :: "char \<Rightarrow> bool" where
  "is_word_char c = (isalnum c \<or> c = CHR ''_'')"

definition word_boundary_after :: "string \<Rightarrow> bool" where
  "word_boundary_after rest = (case rest of [] \<Rightarrow> True | d # _ \<Rightarrow> \<not> is_word_char d)"

fun search_template_word :: "bool \<Rightarrow> string \<Rightarrow> bool" where
  "search_template_word prev_word [] = False"
| "search_template_word prev_word (c # cs) =
     ((\<not> prev_word \<and> lower (take 8 (c # cs)) = ''template''
        \<and> word_boundary_after (drop 8 (c # cs)))
      \<or> search_template_word (is_word_char c) cs)"

definition TEMPLATE_MARKER_search :: "string \<Rightarrow> bool" where
  "TEMPLATE_MARKER_search s = (search_bracket_marker s \<or> search_template_word False s)"

definition ensure_educational_template :: "string \<Rightarrow> error + unit" where
  "ensure_educational_template payload =
     (if \<not> TEMPLATE_MARKER_search payload then Inl (ObfuscationError ObfRefused)
      else Inr ())"

definition comments :: "string \<Rightarrow> error + string" where
  "comments payload =
     bind_err (ensure_educational_template payload) (\<lambda>_.
       Inr (concat (map (\<lambda>ch. if isalnum ch \<and> codepoint ch mod 7 = 0
                               then ch # ''/*OBF*/'' else [ch]) payload)))"

definition whitespace :: "string \<Rightarrow> error + string" where
  "whitespace payload =
     bind_err (ensure_educational_template payload) (\<lambda>_.
       Inr (concat (map (\<lambda>ch. if ch = CHR '' '' then [CHR '' '', CHR 0x09, CHR '' '']
                               else [ch]) payload)))"

definition mixed :: "string \<Rightarrow> error + string" where
  "mixed payload =
     bind_err (ensure_educational_template payload) (\<lambda>_.
       bind_err (comments payload) whitespace)"

definition OBFUSCATION_MODES :: "(string \<times> (string \<Rightarrow> error + string)) list" where
  "OBFUSCATION_MODES =
     [(''comments'', comments), (''whitespace'', whitespace), (''mixed'', mixed)]"

definition list_supported_obfuscations :: "string list" where
  "list_supported_obfuscations = [''comments'', ''mixed'', ''whitespace'']"

text \<open>
  \<open>obfuscate_payload\<close>. The transformers raise nothing but \<open>ObfuscationError\<close>, which
  the source re-raises unchanged.
\<close>

definition obfuscate_payload :: "pyval \<Rightarrow> string option \<Rightarrow> error + string" where
  "obfuscate_payload payload mode =
     (case payload of
        PStr s \<Rightarrow>
          if s = [] then Inl (ObfuscationError ObfPayloadEmpty)
          else (case map_of OBFUSCATION_MODES (normalize_name mode) of
                  None \<Rightarrow>
                    Inl (ObfuscationError (ObfUnsupported mode list_supported_obfuscations))
                | Some transformer \<Rightarrow> transformer s)
      | _ \<Rightarrow> Inl (ObfuscationError ObfNotAString))"


section \<open>The record model (core/models.py)\<close>

definition VALID_MODULES :: "string set" where
  "VALID_MODULES = {''xss'', ''sqli'', ''cmd''}"

definition VALID_RISK_LEVELS :: "string set" where
  "VALID_RISK_LEVELS = {''low'', ''medium'', ''high''}"

definition VALID_DB_TYPES :: "string set" where
  "VALID_DB_TYPES = {''mysql'', ''postgres'', ''mssql''}"

definition VALID_OS_TYPES :: "string set" where
  "VALID_OS_TYPES = {''linux'', ''windows''}"

definition VALID_XSS_CONTEXTS :: "string set" where
  "VALID_XSS_CONTEXTS = {''html'', ''attr'', ''js''}"

text \<open>
  A \<open>datetime\<close> is its instant and its \<open>tzinfo\<close> (the offset, when it has one).

  The two history lists are mutable list objects: a record holds their addresses, and the
  lists themselves live in a store, so that two records can hold the same list. Nothing in
  the source mutates a \<open>tags\<close> list, which is therefore kept by value. The field
  \<open>id\<close> is \<open>ident\<close> and the field \<open>context\<close> is \<open>context_sel\<close> here.
\<close>

record datetime =
  instant :: int
  tzinfo :: "int option"

type_synonym addr = nat

record PayloadTemplate =
  ident :: string
  module :: string
  title :: pyval
  description :: string
  payload :: pyval
  context_sel :: "string option"
  db_type :: "string option"
  os_type :: "string option"
  encoding_applied :: addr
  obfuscation_applied :: addr
  tags :: pyval
  defensive_notes :: string
  risk_level :: string
  disabled_by_default :: pyval
  created_at :: datetime

record store =
  cells :: "addr \<Rightarrow> string list"
  fresh :: addr

text \<open>\<open>not isinstance(v, str) or not v.strip()\<close>\<close>

definition is_blank :: "pyval \<Rightarrow> bool" where
  "is_blank v = (case v of PStr s \<Rightarrow> strip s = [] | _ \<Rightarrow> True)"

definition is_str :: "pyval \<Rightarrow> bool" where
  "is_str v = (case v of PStr s \<Rightarrow> True | _ \<Rightarrow> False)"

text \<open>\<open>x in S\<close> and \<open>not x\<close> for an optional string \<open>x\<close>.\<close>

definition opt_in :: "string option \<Rightarrow> string set \<Rightarrow> bool" where
  "opt_in x S = (case x of None \<Rightarrow> False | Some v \<Rightarrow> v \<in> S)"

definition falsy :: "string option \<Rightarrow> bool" where
  "falsy x = (x = None \<or> x = Some [])"

text \<open>
  \<open>_validate\<close> raises nothing but \<open>PayloadValidationError\<close>: its result is the message
  of that exception, or \<open>None\<close> when it returns. \<open>module_rules\<close> is its block of
  module-specific rules.
\<close>

definition module_rules :: "PayloadTemplate \<Rightarrow> validation_msg option" where
  "module_rules r =
     (if module r = ''xss'' then
        (if \<not> opt_in (context_sel r) VALID_XSS_CONTEXTS then Some XssContextInvalid
         else if db_type r \<noteq> None then Some (MustBeNone ''db_type'' ''xss'')
         else if os_type r \<noteq> None then Some (MustBeNone ''os_type'' ''xss'')
         else None)
      else if module r = ''sqli'' then
        (if falsy (db_type r) then Some (SelectorRequired ''db_type'' ''sqli'')
         else if \<not> opt_in (db_type r) VALID_DB_TYPES then Some (InvalidDbType (the (db_type r)))
         else if context_sel r \<noteq> None then Some (MustBeNone ''context'' ''sqli'')
         else if os_type r \<noteq> None then Some (MustBeNone ''os_type'' ''sqli'')
         else None)
      else if module r = ''cmd'' then
        (if falsy (os_type r) then Some (SelectorRequired ''os_type'' ''cmd'')
         else if \<not> opt_in (os_type r) VALID_OS_TYPES then Some (InvalidOsType (the (os_type r)))
         else if context_sel r \<noteq> None then Some (MustBeNone ''context'' ''cmd'')
         else if db_type r \<noteq> None then Some (MustBeNone ''db_type'' ''cmd'')
         else None)
      else None)"

definition tags_rule :: "pyval \<Rightarrow> validation_msg option" where
  "tags_rule t =
     (case t of
        PList ts \<Rightarrow> if list_ex (\<lambda>tag. \<not> is_str tag) ts then Some TagMustBeString else None
      | _ \<Rightarrow> Some TagsMustBeList)"

definition validate :: "PayloadTemplate \<Rightarrow> validation_msg option" where
  "validate r =
     (if module r \<notin> VALID_MODULES then Some (InvalidModule (module r))
      else if is_blank (title r) then Some TitleEmpty
      else if is_blank (payload r) then Some PayloadEmpty
      else if risk_level r \<notin> VALID_RISK_LEVELS then Some (InvalidRiskLevel (risk_level r))
      else if disabled_by_default r \<noteq> PBool True then Some DisabledMustRemainTrue
      else if tags_rule (tags r) \<noteq> None then tags_rule (tags r)
      else if module_rules r \<noteq> None then module_rules r
      else if tzinfo (created_at r) = None then Some CreatedAtNaive
      else None)"

text \<open>
  Construction: the generated \<open>__init__\<close> stores the fields and \<open>__post_init__\<close>
  validates them; the object exists only when validation returns.
\<close>

definition construct :: "PayloadTemplate \<Rightarrow> error + PayloadTemplate" where
  "construct r = (case validate r of Some m \<Rightarrow> Inl (PayloadValidationError m) | None \<Rightarrow> Inr r)"

definition add_encoding :: "PayloadTemplate \<Rightarrow> string \<Rightarrow> store \<Rightarrow> store" where
  "add_encoding r encoding_name h =
     h\<lparr>cells := (cells h)(encoding_applied r := cells h (encoding_applied r) @ [encoding_name])\<rparr>"

definition add_obfuscation :: "PayloadTemplate \<Rightarrow> string \<Rightarrow> store \<Rightarrow> store" where
  "add_obfuscation r technique_name h =
     h\<lparr>cells := (cells h)(obfuscation_applied r :=
                      cells h (obfuscation_applied r) @ [technique_name])\<rparr>"

text \<open>
  \<open>clone_with_updates(**kwargs)\<close> is \<open>dataclasses.replace(self, **kwargs)\<close>: it calls
  the constructor with the fields of \<open>self\<close>, each keyword argument replacing the
  field of its name. A field that is not replaced is passed as it is: for a list field,
  the same list object.
\<close>

datatype field_update =
    Upd_ident string
  | Upd_module string
  | Upd_title pyval
  | Upd_description string
  | Upd_payload pyval
  | Upd_context "string option"
  | Upd_db_type "string option"
  | Upd_os_type "string option"
  | Upd_encoding_applied addr
  | Upd_obfuscation_applied addr
  | Upd_tags pyval
  | Upd_defensive_notes string
  | Upd_risk_level string
  | Upd_disabled_by_default pyval
  | Upd_created_at datetime

fun apply_update :: "field_update \<Rightarrow> PayloadTemplate \<Rightarrow> PayloadTemplate" where
  "apply_update (Upd_ident v) r = r\<lparr>ident := v\<rparr>"
| "apply_update (Upd_module v) r = r\<lparr>module := v\<rparr>"
| "apply_update (Upd_title v) r = r\<lparr>title := v\<rparr>"
| "apply_update (Upd_description v) r = r\<lparr>description := v\<rparr>"
| "apply_update (Upd_payload v) r = r\<lparr>payload := v\<rparr>"
| "apply_update (Upd_context v) r = r\<lparr>context_sel := v\<rparr>"
| "apply_update (Upd_db_type v) r = r\<lparr>db_type := v\<rparr>"
| "apply_update (Upd_os_type v) r = r\<lparr>os_type := v\<rparr>"
| "apply_update (Upd_encoding_applied v) r = r\<lparr>encoding_applied := v\<rparr>"
| "apply_update (Upd_obfuscation_applied v) r = r\<lparr>obfuscation_applied := v\<rparr>"
| "apply_update (Upd_tags v) r = r\<lparr>tags := v\<rparr>"
| "apply_update (Upd_defensive_notes v) r = r\<lparr>defensive_notes := v\<rparr>"
| "apply_update (Upd_risk_level v) r = r\<lparr>risk_level := v\<rparr>"
| "apply_update (Upd_disabled_by_default v) r = r\<lparr>disabled_by_default := v\<rparr>"
| "apply_update (Upd_created_at v) r = r\<lparr>created_at := v\<rparr>"

definition replaced :: "PayloadTemplate \<Rightarrow> field_update list \<Rightarrow> PayloadTemplate" where
  "replaced r kwargs = fold apply_update kwargs r"

definition clone_with_updates :: "PayloadTemplate \<Rightarrow> field_update list \<Rightarrow> error + PayloadTemplate" where
  "clone_with_updates r kwargs = construct (replaced r kwargs)"

section \<open>The generator modules (modules/xss.py, modules/sqli.py, modules/cmd_injection.py)\<close>

text \<open>
  What a generator reads from outside the program: the identifiers drawn by \<open>uuid4\<close> and
  the clock, both indexed by the allocation counter of the store, and the two library
  functions the exporters call to render a document.
\<close>

datatype json_payload = JsonPayload PayloadTemplate "string list" "string list"

datatype json_doc =
    WrappedDoc string string nat "json_payload list" "(string \<times> pyval) list option"
  | BareList "json_payload list"

record env =
  uuid4 :: "nat \<Rightarrow> string"
  clock :: "nat \<Rightarrow> int"
  now_iso :: string
  json_dumps :: "json_doc \<Rightarrow> bool \<Rightarrow> error + string"
  format_txt :: "store \<Rightarrow> PayloadTemplate list \<Rightarrow> bool \<Rightarrow> (string \<times> pyval) list option
                  \<Rightarrow> nat \<Rightarrow> error + string"

text \<open>
  The keyword arguments the generators pass to the constructor, in this order: module,
  title, description, payload, context, db_type, os_type, defensive_notes, risk_level,
  tags. \<open>new_template\<close> is the constructor call: the default factories give the record a
  fresh identifier, two fresh empty history lists and the current time in UTC, and
  \<open>disabled_by_default\<close> has its default \<open>True\<close>.
\<close>

datatype template_args =
  TemplateArgs string string string string "string option" "string option" "string option"
    string string "string list"

fun new_template :: "env \<Rightarrow> template_args \<Rightarrow> store \<Rightarrow> (error + PayloadTemplate) \<times> store" where
  "new_template e (TemplateArgs m t d p c db os notes risk tgs) h =
     (let a = fresh h;
          h' = h\<lparr>cells := (cells h)(a := [], Suc a := []), fresh := a + 2\<rparr>
      in (construct \<lparr>ident = uuid4 e a, module = m, title = PStr t, description = d,
                     payload = PStr p, context_sel = c, db_type = db, os_type = os,
                     encoding_applied = a, obfuscation_applied = Suc a,
                     tags = PList (map PStr tgs), defensive_notes = notes, risk_level = risk,
                     disabled_by_default = PBool True,
                     created_at = \<lparr>instant = clock e a, tzinfo = Some 0\<rparr>\<rparr>, h'))"

fun new_templates :: "env \<Rightarrow> template_args list \<Rightarrow> store \<Rightarrow> (error + PayloadTemplate list) \<times> store" where
  "new_templates e [] h = (Inr [], h)"
| "new_templates e (a # rest) h =
     (case new_template e a h of
        (Inl err, h') \<Rightarrow> (Inl err, h')
      | (Inr r, h') \<Rightarrow>
          (case new_templates e rest h' of
             (Inl err, h'') \<Rightarrow> (Inl err, h'')
           | (Inr rs, h'') \<Rightarrow> (Inr (r # rs), h'')))"

datatype pyobj = Template PayloadTemplate | ObjList "pyobj list" | Plain pyval

definition returned :: "(error + PayloadTemplate list) \<times> store \<Rightarrow> (error + pyobj) \<times> store" where
  "returned res = (case res of
      (Inl err, h) \<Rightarrow> (Inl err, h)
    | (Inr items, h) \<Rightarrow> (Inr (ObjList (map Template items)), h))"

subsection \<open>xss\<close>

definition normalize_context :: "string option \<Rightarrow> error + string option" where
  "normalize_context context =
     (case context of
        None \<Rightarrow> Inr None
      | Some s \<Rightarrow>
          (let c = lower (strip s) in
           if c = [] then Inr None
           else if c \<notin> {''html'', ''attr'', ''js''} then Inl (ValueError context)
           else Inr (Some c)))"

definition XSS_HTML_TEMPLATES :: "template_args list" where
  "XSS_HTML_TEMPLATES = [
     TemplateArgs ''xss''
       ''Reflected XSS (HTML context) - Template''
       (''Demonstrates reflected XSS risk when untrusted input is placed ''
       @ ''into the HTML body without proper contextual output encoding.'')
       ''<<XSS_TEMPLATE: REFLECTED | CONTEXT=html | SINK=HTML_BODY>>''
       (Some ''html'') None None
       (''Education-only template (non-executing).''
       @ [CHR 0x0A]
       @ ''- Root cause: reflecting user input into HTML without encoding.''
       @ [CHR 0x0A]
       @ ''- Defenses: contextual output encoding (HTML), safe templating/auto-escaping, ''
       @ ''CSP.''
       @ [CHR 0x0A]
       @ ''- WAFs may detect signatures, but correct output encoding is ''
       @ ''the core fix.'')
       ''medium''
       [''reflected'', ''context:html'', ''education-only'', ''non-executing''],
     TemplateArgs ''xss''
       ''Stored XSS (HTML context) - Template''
       (''Demonstrates stored XSS concept: input is persisted and later ''
       @ ''rendered into HTML body.'')
       (''<<XSS_TEMPLATE: STORED | CONTEXT=html | SOURCE=persisted_input ''
       @ ''| SINK=HTML_BODY>>'')
       (Some ''html'') None None
       (''Education-only template (non-executing).''
       @ [CHR 0x0A]
       @ ''- Stored XSS can affect many users because the payload is persisted.''
       @ [CHR 0x0A]
       @ ''- Defenses: encode at render time, input normalization/validation, ''
       @ ''CSP.''
       @ [CHR 0x0A]
       @ ''- Ensure consistent escaping across all render paths.'')
       ''high''
       [''stored'', ''context:html'', ''education-only'', ''non-executing'']]"

definition XSS_ATTR_TEMPLATES :: "template_args list" where
  "XSS_ATTR_TEMPLATES = [
     TemplateArgs ''xss''
       ''Reflected XSS (Attribute context) - Template''
       (''Demonstrates attribute-context injection risk when input is ''
       @ ''placed into an HTML attribute value without proper attribute ''
       @ ''encoding/validation.'')
       ''<<XSS_TEMPLATE: REFLECTED | CONTEXT=attr | SINK=ATTRIBUTE_VALUE>>''
       (Some ''attr'') None None
       (''Education-only template (non-executing).''
       @ [CHR 0x0A]
       @ ''- Attribute context requires attribute-safe encoding (quotes/special ''
       @ ''chars).''
       @ [CHR 0x0A]
       @ ''- For URL attributes (href/src), apply allow-list validation ''
       @ ''for schemes/protocols.''
       @ [CHR 0x0A]
       @ ''- Avoid event-handler attributes entirely; prefer safe DOM APIs.'')
       ''medium''
       [''reflected'', ''context:attr'', ''education-only'', ''non-executing''],
     TemplateArgs ''xss''
       ''Stored XSS (Attribute context) - Template''
       (''Demonstrates stored XSS concept where persisted input is later ''
       @ ''used inside an HTML attribute.'')
       (''<<XSS_TEMPLATE: STORED | CONTEXT=attr | SOURCE=persisted_input ''
       @ ''| SINK=ATTRIBUTE_VALUE>>'')
       (Some ''attr'') None None
       (''Education-only template (non-executing).''
       @ [CHR 0x0A]
       @ ''- Stored attribute injection can be severe depending on sink ''
       @ ''type.''
       @ [CHR 0x0A]
       @ ''- Defenses: strict allow-lists + attribute encoding; avoid dangerous ''
       @ ''attribute sinks.''
       @ [CHR 0x0A]
       @ ''- Prefer framework auto-escaping and safe URL builders.'')
       ''high''
       [''stored'', ''context:attr'', ''education-only'', ''non-executing''],
     TemplateArgs ''xss''
       ''Filter Evasion Concepts (Attribute context) - Template''
       (''Marker template for discussing why naive filters fail in attribute ''
       @ ''context (context switching, encoding differences) without providing ''
       @ ''operational exploit strings.'')
       ''<<XSS_TEMPLATE: BYPASS_CONCEPTS | CONTEXT=attr | NOTE=descriptive_only>>''
       (Some ''attr'') None None
       (''Education-only template (non-executing).''
       @ [CHR 0x0A]
       @ ''- Naive filters often match strings; robust defense is context-aware ''
       @ ''output encoding.''
       @ [CHR 0x0A]
       @ ''- Use allow-lists for URL schemes and avoid inline event handlers.''
       @ [CHR 0x0A]
       @ ''- CSP can reduce impact, but correct encoding is primary.'')
       ''low''
       [''bypass-concepts'', ''context:attr'', ''education-only'', ''non-executing'']]"

definition XSS_JS_TEMPLATES :: "template_args list" where
  "XSS_JS_TEMPLATES = [
     TemplateArgs ''xss''
       ''Reflected XSS (JavaScript context) - Template''
       (''Demonstrates risk when untrusted input is embedded into a JavaScript ''
       @ ''string/context without proper JS escaping.'')
       ''<<XSS_TEMPLATE: REFLECTED | CONTEXT=js | SINK=JS_STRING>>''
       (Some ''js'') None None
       (''Education-only template (non-executing).''
       @ [CHR 0x0A]
       @ ''- JS context needs JS-string escaping (different from HTML/attr).''
       @ [CHR 0x0A]
       @ ''- Avoid string concatenation; prefer safe APIs and JSON encoding.''
       @ [CHR 0x0A]
       @ ''- CSP helps, but correct contextual escaping is essential.'')
       ''high''
       [''reflected'', ''context:js'', ''education-only'', ''non-executing''],
     TemplateArgs ''xss''
       ''DOM-based XSS (JavaScript sink) - Template''
       (''Demonstrates DOM XSS concept: untrusted data from browser sources ''
       @ ''is written to a risky sink.'')
       ''<<XSS_TEMPLATE: DOM | CONTEXT=js | SOURCE=location | SINK=dom_write>>''
       (Some ''js'') None None
       (''Education-only template (non-executing).''
       @ [CHR 0x0A]
       @ ''- DOM XSS occurs when client-side JS writes untrusted data into ''
       @ ''dangerous sinks.''
       @ [CHR 0x0A]
       @ ''- Defenses: use textContent over innerHTML, sanitize with vetted ''
       @ ''libraries, CSP.''
       @ [CHR 0x0A]
       @ ''- Identify sources (location, storage) and sinks (DOM writes) ''
       @ ''during testing.'')
       ''high''
       [''dom'', ''context:js'', ''education-only'', ''non-executing''],
     TemplateArgs ''xss''
       ''Encoding Demonstration (JavaScript context) - Template''
       (''Non-executing marker used to demonstrate how encoding transforms ''
       @ ''representations (URL/Base64/Hex) in a safe way.'')
       ''<<XSS_TEMPLATE: ENCODING_DEMO | CONTEXT=js | NOTE=representation_only>>''
       (Some ''js'') None None
       (''Education-only template (non-executing).''
       @ [CHR 0x0A]
       @ ''- Encoding changes representation, not the underlying vulnerability.''
       @ [CHR 0x0A]
       @ ''- Correct fix is contextual output encoding + safe coding patterns.''
       @ [CHR 0x0A]
       @ ''- Use Proteus flags to observe how representations change safely.'')
       ''low''
       [''encoding'', ''context:js'', ''education-only'', ''non-executing'']]"

definition xss_generate_payloads ::
  "env \<Rightarrow> string option \<Rightarrow> store \<Rightarrow> (error + pyobj) \<times> store" where
  "xss_generate_payloads e context h =
     (case normalize_context context of
        Inl err \<Rightarrow> (Inl err, h)
      | Inr ctx \<Rightarrow>
          returned (new_templates e
            ((if ctx \<in> {None, Some ''html''} then XSS_HTML_TEMPLATES else [])
             @ (if ctx \<in> {None, Some ''attr''} then XSS_ATTR_TEMPLATES else [])
             @ (if ctx \<in> {None, Some ''js''} then XSS_JS_TEMPLATES else [])) h))"

subsection \<open>sqli and cmd\<close>

text \<open>A \<open>_TemplateSpec\<close>: key, title, risk, tags, description, defensive_notes.\<close>

datatype TemplateSpec = TemplateSpec string string string "string list" string string

definition SQLI_VALID_DB_TYPES :: "(string \<times> string) list" where
  "SQLI_VALID_DB_TYPES = [(''mysql'', ''mysql''), (''mariadb'', ''mysql''), (''postgres'', ''postgres''), (''postgresql'', ''postgres''), (''mssql'', ''mssql''), (''sqlserver'', ''mssql''), (''sql server'', ''mssql'')]"

definition normalize_db :: "string option \<Rightarrow> error + string" where
  "normalize_db db_type' =
     (case map_of SQLI_VALID_DB_TYPES (normalize_name db_type') of
        None \<Rightarrow> Inl (ValueError db_type')
      | Some db \<Rightarrow> if db = [] then Inl (ValueError db_type') else Inr db)"

definition db_defense_highlights :: "string \<Rightarrow> string" where
  "db_defense_highlights db =
     (if db = ''mysql'' then
        (''- MySQL/MariaDB: disable verbose errors in production.''
       @ [CHR 0x0A]
       @ ''- Monitor slow query log and restrict SUPER/FILE privileges.''
       @ [CHR 0x0A])
      else if db = ''postgres'' then
        (''- PostgreSQL: enforce least-privilege roles.''
       @ [CHR 0x0A]
       @ ''- Avoid dynamic SQL inside functions.''
       @ [CHR 0x0A])
      else
        (''- SQL Server: avoid string concatenation with EXEC().''
       @ [CHR 0x0A]
       @ ''- Review stored procedures for dynamic SQL usage.''
       @ [CHR 0x0A]))"

definition SQLI_TEMPLATES :: "TemplateSpec list" where
  "SQLI_TEMPLATES = [
     TemplateSpec ''ERROR_BASED''
       ''Error-Based SQLi''
       ''high''
       [''error-based'', ''education-only'', ''non-executing'']
       (''Concept: database error messages may leak query structure when ''
       @ ''input is concatenated into SQL statements.'')
       (''- Root cause: dynamic SQL string construction.''
       @ [CHR 0x0A]
       @ ''- Use parameterized queries / prepared statements.''
       @ [CHR 0x0A]
       @ ''- Suppress detailed DB errors in production.''
       @ [CHR 0x0A]),
     TemplateSpec ''UNION_BASED''
       ''Union-Based SQLi''
       ''high''
       [''union-based'', ''education-only'', ''non-executing'']
       (''Concept: attacker-controlled input may alter SELECT queries ''
       @ ''to combine additional result sets.'')
       (''- Use parameterized queries.''
       @ [CHR 0x0A]
       @ ''- Apply least-privilege DB roles.''
       @ [CHR 0x0A]
       @ ''- Avoid direct string interpolation in SQL.''
       @ [CHR 0x0A]),
     TemplateSpec ''BLIND_BOOLEAN''
       ''Blind SQLi (Boolean-Based)''
       ''medium''
       [''blind'', ''boolean-based'', ''education-only'', ''non-executing'']
       (''Concept: response differences reveal true/false evaluation even ''
       @ ''without visible errors.'')
       (''- Enforce consistent responses.''
       @ [CHR 0x0A]
       @ ''- Use parameterized queries.''
       @ [CHR 0x0A]
       @ ''- Avoid logic branching on raw user input.''
       @ [CHR 0x0A]),
     TemplateSpec ''BLIND_TIME''
       ''Blind SQLi (Time-Based)''
       ''medium''
       [''blind'', ''time-based'', ''education-only'', ''non-executing'']
       ''Concept: response latency may indicate conditional execution.''
       (''- Set DB query time limits.''
       @ [CHR 0x0A]
       @ ''- Monitor abnormal latency patterns.''
       @ [CHR 0x0A]
       @ ''- Use parameterization everywhere.''
       @ [CHR 0x0A]),
     TemplateSpec ''BYPASS_CONCEPTS''
       ''Filter Evasion Concepts (Comments / Case)''
       ''low''
       [''bypass-concepts'', ''education-only'', ''non-executing'']
       (''Concept: naive keyword filters fail against case changes or ''
       @ ''token splitting.'')
       (''- Do not rely on regex keyword filtering.''
       @ [CHR 0x0A]
       @ ''- Use parameterized queries as primary defense.''
       @ [CHR 0x0A])]"

fun sqli_template :: "string \<Rightarrow> TemplateSpec \<Rightarrow> template_args" where
  "sqli_template db (TemplateSpec key ttl risk tgs descr notes) =
     TemplateArgs ''sqli''
       (ttl @ '' ('' @ db @ '') - Template'')
       descr
       (''<<SQLI_TEMPLATE: '' @ key @ '' | '' @ ''DB='' @ db @ '' | NON_EXECUTING>>'')
       None (Some db) None
       (''Education-only (non-executing).'' @ [CHR 0x0A] @ notes @ db_defense_highlights db
        @ ''- Integrate SAST/DAST and code review for query construction.'' @ [CHR 0x0A])
       risk
       (tgs @ [''db:'' @ db])"

definition sqli_generate_payloads ::
  "env \<Rightarrow> string option \<Rightarrow> store \<Rightarrow> (error + pyobj) \<times> store" where
  "sqli_generate_payloads e db_type' h =
     (case normalize_db db_type' of
        Inl err \<Rightarrow> (Inl err, h)
      | Inr db \<Rightarrow> returned (new_templates e (map (sqli_template db) SQLI_TEMPLATES) h))"

definition CMD_VALID_OS_TYPES :: "(string \<times> string) list" where
  "CMD_VALID_OS_TYPES = [(''linux'', ''linux''), (''unix'', ''linux''), (''gnu/linux'', ''linux''), (''bash'', ''linux''), (''sh'', ''linux''), (''windows'', ''windows''), (''win'', ''windows''), (''win32'', ''windows''), (''cmd'', ''windows''), (''powershell'', ''windows''), (''pwsh'', ''windows'')]"

definition normalize_os :: "string option \<Rightarrow> error + string" where
  "normalize_os os_type' =
     (case map_of CMD_VALID_OS_TYPES (normalize_name os_type') of
        None \<Rightarrow> Inl (ValueError os_type')
      | Some os_norm \<Rightarrow> if os_norm = [] then Inl (ValueError os_type') else Inr os_norm)"

definition os_defense_highlights :: "string \<Rightarrow> string" where
  "os_defense_highlights os_norm =
     (if os_norm = ''linux'' then
        (''- Avoid shell=True patterns in process spawning.''
       @ [CHR 0x0A]
       @ ''- Prefer exec-style APIs with argument arrays (argv).''
       @ [CHR 0x0A]
       @ ''- Apply strict allow-lists for user-controlled parameters.''
       @ [CHR 0x0A])
      else
        (''- Avoid passing untrusted input into cmd.exe or PowerShell.''
       @ [CHR 0x0A]
       @ ''- Prefer structured APIs instead of dynamic command construction.''
       @ [CHR 0x0A]
       @ ''- Restrict privileges and monitor spawned processes.''
       @ [CHR 0x0A]))"

definition CMD_TEMPLATES :: "TemplateSpec list" where
  "CMD_TEMPLATES = [
     TemplateSpec ''BASIC_CONCEPT''
       ''Command Injection (Basic Concept)''
       ''high''
       [''cmd-injection'', ''basic-concept'', ''education-only'', ''non-executing'']
       (''Concept: untrusted input influencing system command construction ''
       @ ''may alter execution flow.'')
       (''- Root cause: concatenating user input into shell commands.''
       @ [CHR 0x0A]
       @ ''- Primary defense: avoid shell invocation entirely.''
       @ [CHR 0x0A]),
     TemplateSpec ''SEPARATOR_CONCEPT''
       ''Command Separator Concept''
       ''high''
       [''cmd-injection'', ''separator-concept'', ''education-only'', ''non-executing'']
       (''Concept: shell parsing rules may interpret separators as command ''
       @ ''boundaries.'')
       (''- Do not rely on character blacklists.''
       @ [CHR 0x0A]
       @ ''- Use structured execution (argv arrays), not shell parsing.''
       @ [CHR 0x0A]),
     TemplateSpec ''CHAINING_CONCEPT''
       ''Command Chaining Concept''
       ''high''
       [''cmd-injection'', ''chaining-concept'', ''education-only'', ''non-executing'']
       (''Concept: dynamic command building may enable chained execution ''
       @ ''paths.'')
       (''- Avoid dynamic command construction.''
       @ [CHR 0x0A]
       @ ''- Enforce strict input validation.''
       @ [CHR 0x0A]),
     TemplateSpec ''FILTER_EVASION_CONCEPTS''
       ''Filter Evasion Concepts''
       ''medium''
       [''cmd-injection'', ''bypass-concepts'', ''education-only'', ''non-executing'']
       (''Concept: naive filtering may fail across encodings and shell ''
       @ ''behaviors.'')
       (''- Architectural prevention > keyword filtering.''
       @ [CHR 0x0A]
       @ ''- Add sandboxing and least privilege.''
       @ [CHR 0x0A]),
     TemplateSpec ''OS_DETECTION_LOGIC''
       ''OS Detection Logic Concept''
       ''low''
       [''cmd-injection'', ''os-detection'', ''education-only'', ''non-executing'']
       ''Concept: behavioral differences may reveal underlying OS type.''
       (''- Avoid exposing platform details.''
       @ [CHR 0x0A]
       @ ''- Do not return raw command output.''
       @ [CHR 0x0A])]"

fun cmd_template :: "string \<Rightarrow> TemplateSpec \<Rightarrow> template_args" where
  "cmd_template os_norm (TemplateSpec key ttl risk tgs descr notes) =
     TemplateArgs ''cmd''
       (ttl @ '' ('' @ os_norm @ '') - Template'')
       descr
       (''<<CMD_TEMPLATE: '' @ key @ '' | '' @ ''OS='' @ os_norm @ '' | NON_EXECUTING>>'')
       None None (Some os_norm)
       (''Education-only (non-executing).'' @ [CHR 0x0A] @ notes @ os_defense_highlights os_norm
        @ ''- Apply least privilege to service accounts.'' @ [CHR 0x0A]
        @ ''- Prefer SDK/library APIs over invoking shell utilities.'' @ [CHR 0x0A])
       risk
       (tgs @ [''os:'' @ os_norm])"

definition cmd_generate_payloads ::
  "env \<Rightarrow> string option \<Rightarrow> store \<Rightarrow> (error + pyobj) \<times> store" where
  "cmd_generate_payloads e os_type' h =
     (case normalize_os os_type' of
        Inl err \<Rightarrow> (Inl err, h)
      | Inr os_norm \<Rightarrow> returned (new_templates e (map (cmd_template os_norm) CMD_TEMPLATES) h))"

section \<open>The registry (core/registry.py)\<close>

text \<open>
  A generator is called with the one selector its spec declares relevant; it may raise,
  and it may return any object. The registry is a dictionary in insertion order.
\<close>

record ModuleSpec =
  name :: string
  generator :: "env \<Rightarrow> string option \<Rightarrow> store \<Rightarrow> (error + pyobj) \<times> store"
  requires_db :: bool
  requires_os :: bool

type_synonym module_registry = "(string \<times> ModuleSpec) list"

definition register ::
  "module_registry \<Rightarrow> string \<Rightarrow> (env \<Rightarrow> string option \<Rightarrow> store \<Rightarrow> (error + pyobj) \<times> store)
     \<Rightarrow> bool \<Rightarrow> bool \<Rightarrow> error + module_registry" where
  "register reg module_name func rdb ros =
     (if module_name \<in> set (map fst reg) then Inl (RegistryError (AlreadyRegistered module_name))
      else Inr (reg @ [(module_name, \<lparr>name = module_name, generator = func,
                                      requires_db = rdb, requires_os = ros\<rparr>)]))"

definition list_modules :: "module_registry \<Rightarrow> string list" where
  "list_modules reg = sort (map fst reg)"

definition get_spec :: "module_registry \<Rightarrow> string \<Rightarrow> error + ModuleSpec" where
  "get_spec reg module_name =
     (case map_of reg module_name of
        None \<Rightarrow> Inl (RegistryError (NotRegistered module_name (list_modules reg)))
      | Some spec \<Rightarrow> Inr spec)"

definition validate_selectors ::
  "module_registry \<Rightarrow> string \<Rightarrow> string option \<Rightarrow> string option \<Rightarrow> string option \<Rightarrow> error + unit" where
  "validate_selectors reg module_name db_type' os_type' context =
     bind_err (get_spec reg module_name) (\<lambda>spec.
       if requires_db spec \<and> falsy db_type'
         then Inl (RegistryError (RequiresSelector module_name ''db_type''))
       else if requires_os spec \<and> falsy os_type'
         then Inl (RegistryError (RequiresSelector module_name ''os_type''))
       else if module_name = ''xss'' \<and> falsy context
         then Inl (RegistryError (RequiresSelector ''xss'' ''context''))
       else Inr ())"

text \<open>\<open>isinstance(items, list)\<close>, with the elements of the list.\<close>

fun as_list :: "pyobj \<Rightarrow> pyobj list option" where
  "as_list (ObjList xs) = Some xs"
| "as_list (Plain (PList vs)) = Some (map Plain vs)"
| "as_list _ = None"

text \<open>
  The loop over \<open>enumerate(items)\<close>, from index \<open>i\<close>. It returns the items when all
  of them pass; they are then all templates.
\<close>

fun check_items :: "string \<Rightarrow> nat \<Rightarrow> pyobj list \<Rightarrow> error + PayloadTemplate list" where
  "check_items module_name i [] = Inr []"
| "check_items module_name i (item # rest) =
     (case item of
        Template t \<Rightarrow>
          (case validate t of
             Some m \<Rightarrow> Inl (PayloadValidationError (InvalidFromModule module_name i m))
           | None \<Rightarrow> bind_err (check_items module_name (Suc i) rest) (\<lambda>ts. Inr (t # ts)))
      | _ \<Rightarrow> Inl (RegistryError (ItemNotTemplate i module_name)))"

definition registry_generate ::
  "module_registry \<Rightarrow> env \<Rightarrow> string \<Rightarrow> string option \<Rightarrow> string option \<Rightarrow> string option
     \<Rightarrow> store \<Rightarrow> (error + PayloadTemplate list) \<times> store" where
  "registry_generate reg e module_name db_type' os_type' context h =
     (case validate_selectors reg module_name db_type' os_type' context of
        Inl err \<Rightarrow> (Inl err, h)
      | Inr _ \<Rightarrow>
          (case get_spec reg module_name of
             Inl err \<Rightarrow> (Inl err, h)
           | Inr spec \<Rightarrow>
               (case generator spec e
                       (if requires_db spec then db_type'
                        else if requires_os spec then os_type' else context) h of
                  (Inl err, h') \<Rightarrow> (Inl err, h')
                | (Inr items, h') \<Rightarrow>
                    (case as_list items of
                       None \<Rightarrow> (Inl (RegistryError (MustReturnList module_name)), h')
                     | Some xs \<Rightarrow> (check_items module_name 0 xs, h')))))"

text \<open>
  The global registry, after \<open>initialize_registry\<close> has imported the three modules,
  whose decorators register them in this order.
\<close>

definition registry :: module_registry where
  "registry =
     [(''xss'', \<lparr>name = ''xss'', generator = xss_generate_payloads,
                 requires_db = False, requires_os = False\<rparr>),
      (''sqli'', \<lparr>name = ''sqli'', generator = sqli_generate_payloads,
                  requires_db = True, requires_os = False\<rparr>),
      (''cmd'', \<lparr>name = ''cmd'', generator = cmd_generate_payloads,
                 requires_db = False, requires_os = True\<rparr>)]"

section \<open>The exporters (exporters/json_exporter.py, exporters/txt_exporter.py)\<close>

text \<open>
  The file system maps a path to the content of the file at that path. What the operating
  system does during one atomic write is given from outside: whether creating the parent
  directories, creating the temporary file, replacing the destination or removing the
  temporary file fails, the random part of the temporary name, and, when writing fails,
  how many characters reached the temporary file. Paths are in normal form, so that the
  temporary file \<open>path.parent / (path.name + "." + random + ".tmp")\<close> is the
  destination path followed by \<open>"." + random + ".tmp"\<close>. \<open>mkstemp\<close> never opens
  an existing file.
\<close>

type_synonym filesystem = "string \<rightharpoonup> string"

record os_behaviour =
  mkdir_fails :: bool
  mkstemp_fails :: bool
  tmp_random :: string
  write_fails_after :: "nat option"
  replace_fails :: bool
  remove_fails :: bool

text \<open>The \<open>finally\<close> block, when a temporary file is left: \<open>os.remove\<close>, errors ignored.\<close>

definition cleanup_tmp :: "os_behaviour \<Rightarrow> string \<Rightarrow> filesystem \<Rightarrow> filesystem" where
  "cleanup_tmp io tmp_path fs = (if remove_fails io then fs else fs(tmp_path := None))"

definition atomic_write_text ::
  "os_behaviour \<Rightarrow> string \<Rightarrow> string \<Rightarrow> filesystem \<Rightarrow> (error + unit) \<times> filesystem" where
  "atomic_write_text io path content fs =
     (if mkdir_fails io then (Inl OSError, fs)
      else
        (let tmp_path = path @ ''.'' @ tmp_random io @ ''.tmp'' in
         if mkstemp_fails io \<or> tmp_path \<in> dom fs then (Inl OSError, fs)
         else
           (case write_fails_after io of
              Some k \<Rightarrow> (Inl OSError, cleanup_tmp io tmp_path (fs(tmp_path \<mapsto> take k content)))
            | None \<Rightarrow>
                if replace_fails io
                then (Inl OSError, cleanup_tmp io tmp_path (fs(tmp_path \<mapsto> content)))
                else (Inr (), (fs(tmp_path := None))(path \<mapsto> content)))))"

text \<open>
  The two \<open>_validate_items\<close>, from index \<open>i\<close>. The third check of the JSON one,
  that \<open>to_json_safe\<close> is callable, holds of every \<open>PayloadTemplate\<close>.
\<close>

fun json_validate_items :: "nat \<Rightarrow> pyobj list \<Rightarrow> error + PayloadTemplate list" where
  "json_validate_items i [] = Inr []"
| "json_validate_items i (item # rest) =
     (case item of
        Template t \<Rightarrow>
          if disabled_by_default t \<noteq> PBool True
          then Inl (JSONExportError (ItemViolatesSafety i) None)
          else bind_err (json_validate_items (Suc i) rest) (\<lambda>validated. Inr (t # validated))
      | _ \<Rightarrow> Inl (JSONExportError (ItemNotPayloadTemplate i) None))"

fun txt_validate_items :: "nat \<Rightarrow> pyobj list \<Rightarrow> error + PayloadTemplate list" where
  "txt_validate_items i [] = Inr []"
| "txt_validate_items i (item # rest) =
     (case item of
        Template t \<Rightarrow>
          if disabled_by_default t \<noteq> PBool True
          then Inl (TXTExportError (ItemViolatesSafety i) None)
          else bind_err (txt_validate_items (Suc i) rest) (\<lambda>validated. Inr (t # validated))
      | _ \<Rightarrow> Inl (TXTExportError (ItemNotPayloadTemplate i) None))"

text \<open>
  \<open>except JSONExportError: raise\<close> and \<open>except Exception as e: raise
  JSONExportError(...) from e\<close>, and the same for the text exporter.
\<close>

definition json_reraise :: "error \<Rightarrow> error" where
  "json_reraise err = (case err of JSONExportError m c \<Rightarrow> err
                                 | _ \<Rightarrow> JSONExportError ExportFailed (Some err))"

definition txt_reraise :: "error \<Rightarrow> error" where
  "txt_reraise err = (case err of TXTExportError m c \<Rightarrow> err
                                | _ \<Rightarrow> TXTExportError ExportFailed (Some err))"

definition reraised :: "(error \<Rightarrow> error) \<Rightarrow> error + 'a \<Rightarrow> error + 'a" where
  "reraised f r = (case r of Inl err \<Rightarrow> Inl (f err) | Inr x \<Rightarrow> Inr x)"

fun map_err :: "('a \<Rightarrow> error + 'b) \<Rightarrow> 'a list \<Rightarrow> error + 'b list" where
  "map_err f [] = Inr []"
| "map_err f (x # xs) = bind_err (f x) (\<lambda>y. bind_err (map_err f xs) (\<lambda>ys. Inr (y # ys)))"

text \<open>
  The sort key \<open>(x.module, (x.title or "").lower())\<close>: a title that is truthy and not a
  string has no \<open>lower\<close>. \<open>list.sort\<close> computes all the keys, then sorts stably.
\<close>

definition json_sort_key :: "PayloadTemplate \<Rightarrow> error + string \<times> string" where
  "json_sort_key x =
     (case title x of
        PStr s \<Rightarrow> Inr (module x, lower s)
      | v \<Rightarrow> if truthy v then Inl AttributeError else Inr (module x, []))"

definition json_sorted :: "PayloadTemplate list \<Rightarrow> error + PayloadTemplate list" where
  "json_sorted validated =
     bind_err (map_err json_sort_key validated) (\<lambda>keys.
       Inr (map snd (sort_key fst (zip keys validated))))"

definition to_json_safe :: "store \<Rightarrow> PayloadTemplate \<Rightarrow> json_payload" where
  "to_json_safe h t =
     JsonPayload t (cells h (encoding_applied t)) (cells h (obfuscation_applied t))"

definition RESERVED_KEYS :: "string list" where
  "RESERVED_KEYS = [''schema'', ''exported_at'', ''count'', ''payloads'']"

text \<open>The body of the \<open>try\<close> of \<open>export_json\<close> up to the write: the text to write.\<close>

definition json_text_of ::
  "env \<Rightarrow> store \<Rightarrow> pyobj list \<Rightarrow> bool \<Rightarrow> bool \<Rightarrow> (string \<times> pyval) list option \<Rightarrow> error + string" where
  "json_text_of e h items pretty include_wrapper meta =
     bind_err (json_validate_items 0 items) (\<lambda>validated.
     bind_err (json_sorted validated) (\<lambda>ordered.
       let payloads = map (to_json_safe h) ordered;
           given_meta = (case meta of None \<Rightarrow> [] | Some kvs \<Rightarrow> kvs);
           collisions = filter (\<lambda>k. k \<in> set (map fst given_meta)) RESERVED_KEYS
       in
         bind_err
           (if include_wrapper then
              (if given_meta \<noteq> [] \<and> collisions \<noteq> []
               then Inl (JSONExportError (MetaReservedKeys (sort collisions)) None)
               else Inr (WrappedDoc ''proteus.payloads.v1'' (now_iso e) (length payloads) payloads
                          (if given_meta \<noteq> [] then Some given_meta else None)))
            else Inr (BareList payloads))
           (\<lambda>doc. bind_err (json_dumps e doc pretty) (\<lambda>text. Inr (text @ [CHR 0x0A])))))"

definition export_json ::
  "env \<Rightarrow> os_behaviour \<Rightarrow> store \<Rightarrow> pyobj list \<Rightarrow> string \<Rightarrow> bool \<Rightarrow> bool
     \<Rightarrow> (string \<times> pyval) list option \<Rightarrow> filesystem \<Rightarrow> (error + string) \<times> filesystem" where
  "export_json e io h items output_path pretty include_wrapper meta fs =
     (case reraised json_reraise (json_text_of e h items pretty include_wrapper meta) of
        Inl err \<Rightarrow> (Inl err, fs)
      | Inr json_text \<Rightarrow>
          (case atomic_write_text io output_path json_text fs of
             (Inl err, fs') \<Rightarrow> (Inl (json_reraise err), fs')
           | (Inr _, fs') \<Rightarrow> (Inr output_path, fs')))"

text \<open>
  \<open>export_txt\<close>: between validation and the write, the source sorts the items and
  formats the catalogue, reading no file; that part is the function \<open>format_txt\<close> of the
  environment, which may raise.
\<close>

definition export_txt ::
  "env \<Rightarrow> os_behaviour \<Rightarrow> store \<Rightarrow> pyobj list \<Rightarrow> string \<Rightarrow> bool
     \<Rightarrow> (string \<times> pyval) list option \<Rightarrow> nat \<Rightarrow> filesystem \<Rightarrow> (error + string) \<times> filesystem" where
  "export_txt e io h items output_path include_header meta line_width fs =
     (case reraised txt_reraise
             (bind_err (txt_validate_items 0 items) (\<lambda>validated.
                format_txt e h validated include_header meta line_width)) of
        Inl err \<Rightarrow> (Inl err, fs)
      | Inr content \<Rightarrow>
          (case atomic_write_text io output_path content fs of
             (Inl err, fs') \<Rightarrow> (Inl (txt_reraise err), fs')
           | (Inr _, fs') \<Rightarrow> (Inr output_path, fs')))"

section \<open>The pipeline (core/pipeline.py)\<close>

definition pipeline_generate ::
  "module_registry \<Rightarrow> env \<Rightarrow> string \<Rightarrow> string option \<Rightarrow> string option \<Rightarrow> string option
     \<Rightarrow> store \<Rightarrow> (error + PayloadTemplate list) \<times> store" where
  "pipeline_generate reg e module_name db_type' os_type' context h =
     (case registry_generate reg e module_name db_type' os_type' context h of
        (Inl err, h') \<Rightarrow> (Inl (PipelineError GenerationFailed (Some err)), h')
      | (Inr items, h') \<Rightarrow> (Inr items, h'))"

fun apply_encoding_to_all ::
  "PayloadTemplate list \<Rightarrow> string \<Rightarrow> store \<Rightarrow> (error + PayloadTemplate list) \<times> store" where
  "apply_encoding_to_all [] method h = (Inr [], h)"
| "apply_encoding_to_all (item # items) method h =
     (case encode_payload (payload item) (Some method) of
        Inl err \<Rightarrow> (Inl (PipelineError (EncodingFailed method) (Some err)), h)
      | Inr new_payload \<Rightarrow>
          (case clone_with_updates item [Upd_payload (PStr new_payload)] of
             Inl err \<Rightarrow> (Inl err, h)
           | Inr new_item \<Rightarrow>
               (case apply_encoding_to_all items method (add_encoding new_item method h) of
                  (Inl err, h') \<Rightarrow> (Inl err, h')
                | (Inr out, h') \<Rightarrow> (Inr (new_item # out), h'))))"

fun apply_obfuscation_to_all ::
  "PayloadTemplate list \<Rightarrow> string \<Rightarrow> store \<Rightarrow> (error + PayloadTemplate list) \<times> store" where
  "apply_obfuscation_to_all [] technique h = (Inr [], h)"
| "apply_obfuscation_to_all (item # items) technique h =
     (case obfuscate_payload (payload item) (Some technique) of
        Inl err \<Rightarrow> (Inl (PipelineError (ObfuscationFailed technique) (Some err)), h)
      | Inr new_payload \<Rightarrow>
          (case clone_with_updates item [Upd_payload (PStr new_payload)] of
             Inl err \<Rightarrow> (Inl err, h)
           | Inr new_item \<Rightarrow>
               (case apply_obfuscation_to_all items technique
                       (add_obfuscation new_item technique h) of
                  (Inl err, h') \<Rightarrow> (Inl err, h')
                | (Inr out, h') \<Rightarrow> (Inr (new_item # out), h'))))"

text \<open>\<open>if x: ...\<close> for an optional string: the step runs when \<open>x\<close> is a non-empty string.\<close>

definition given :: "string option \<Rightarrow> bool" where
  "given x = (\<not> falsy x)"

definition run ::
  "module_registry \<Rightarrow> env \<Rightarrow> os_behaviour \<Rightarrow> string \<Rightarrow> string option \<Rightarrow> string option
     \<Rightarrow> string option \<Rightarrow> string option \<Rightarrow> string option \<Rightarrow> string option \<Rightarrow> string option
     \<Rightarrow> (string \<times> pyval) list option \<Rightarrow> store \<Rightarrow> filesystem
     \<Rightarrow> (error + PayloadTemplate list) \<times> store \<times> filesystem" where
  "run reg e io module_name db_type' os_type' context encoding obfuscation export_format
       output_path meta h fs =
     (case pipeline_generate reg e module_name db_type' os_type' context h of
        (Inl err, h1) \<Rightarrow> (Inl err, h1, fs)
      | (Inr items, h1) \<Rightarrow>
     (case (if given encoding then apply_encoding_to_all items (the encoding) h1
            else (Inr items, h1)) of
        (Inl err, h2) \<Rightarrow> (Inl err, h2, fs)
      | (Inr items2, h2) \<Rightarrow>
     (case (if given obfuscation then apply_obfuscation_to_all items2 (the obfuscation) h2
            else (Inr items2, h2)) of
        (Inl err, h3) \<Rightarrow> (Inl err, h3, fs)
      | (Inr items3, h3) \<Rightarrow>
          if given export_format then
            (if \<not> given output_path
               then (Inl (PipelineError OutputPathRequired None), h3, fs)
             else if export_format = Some ''json'' then
               (case export_json e io h3 (map Template items3) (the output_path) True True
                       meta fs of
                  (Inl err, fs') \<Rightarrow> (Inl err, h3, fs')
                | (Inr _, fs') \<Rightarrow> (Inr items3, h3, fs'))
             else if export_format = Some ''txt'' then
               (case export_txt e io h3 (map Template items3) (the output_path) True meta 72
                       fs of
                  (Inl err, fs') \<Rightarrow> (Inl err, h3, fs')
                | (Inr _, fs') \<Rightarrow> (Inr items3, h3, fs'))
             else (Inl (PipelineError (UnsupportedExportFormat (the export_format)) None),
                   h3, fs))
          else (Inr items3, h3, fs))))"

text \<open>\<open>run_pipeline(**kwargs)\<close> is \<open>PayloadPipeline().run(**kwargs)\<close>, on the global registry.\<close>

definition run_pipeline ::
  "env \<Rightarrow> os_behaviour \<Rightarrow> string \<Rightarrow> string option \<Rightarrow> string option
     \<Rightarrow> string option \<Rightarrow> string option \<Rightarrow> string option \<Rightarrow> string option \<Rightarrow> string option
     \<Rightarrow> (string \<times> pyval) list option \<Rightarrow> store \<Rightarrow> filesystem
     \<Rightarrow> (error + PayloadTemplate list) \<times> store \<times> filesystem" where
  "run_pipeline = run registry"

section \<open>Sample values and predicates of the statements\<close>

text \<open>
  The record of \<open>make_payload\<close> in tests/test_exporters.py, with its two history lists at
  addresses 0 and 1 of a store in which both are empty, and an environment whose
  renderers return fixed text.
\<close>

definition sample_template :: PayloadTemplate where
  "sample_template =
     \<lparr>ident = ''00000000-0000-4000-8000-000000000000'', module = ''xss'',
      title = PStr ''Test Payload'', description = ''Test description'',
      payload = PStr ''<<XSS_TEMPLATE:TEST|CONTEXT=html|NON_EXECUTING>>'',
      context_sel = Some ''html'', db_type = None, os_type = None,
      encoding_applied = 0, obfuscation_applied = 1, tags = PList [],
      defensive_notes = ''Test notes'', risk_level = ''low'',
      disabled_by_default = PBool True,
      created_at = \<lparr>instant = 0, tzinfo = Some 0\<rparr>\<rparr>"

definition sample_store :: store where
  "sample_store = \<lparr>cells = (\<lambda>a. []), fresh = 2\<rparr>"

definition sample_env :: env where
  "sample_env = \<lparr>uuid4 = (\<lambda>n. ''id-'' @ replicate n (CHR ''x'')), clock = (\<lambda>n. 0),
                 now_iso = ''1970-01-01T00:00:00+00:00'',
                 json_dumps = (\<lambda>doc pretty. Inr ''{}''),
                 format_txt = (\<lambda>h items header meta width. Inr ''catalog'')\<rparr>"

definition sample_os :: os_behaviour where
  "sample_os = \<lparr>mkdir_fails = False, mkstemp_fails = False, tmp_random = ''abc123'',
                write_fails_after = None, replace_fails = False, remove_fails = False\<rparr>"

text \<open>
  The seven invariants of the record, as the specification lists them: the module, title
  and payload, the risk level, the safety flag, the tags, selector exclusivity, and the
  time zone of the creation time.
\<close>

definition selector_exclusive :: "PayloadTemplate \<Rightarrow> bool" where
  "selector_exclusive r =
     ((module r = ''xss'' \<longrightarrow> opt_in (context_sel r) VALID_XSS_CONTEXTS
          \<and> db_type r = None \<and> os_type r = None)
      \<and> (module r = ''sqli'' \<longrightarrow> opt_in (db_type r) VALID_DB_TYPES
          \<and> context_sel r = None \<and> os_type r = None)
      \<and> (module r = ''cmd'' \<longrightarrow> opt_in (os_type r) VALID_OS_TYPES
          \<and> context_sel r = None \<and> db_type r = None))"

definition record_invariants :: "PayloadTemplate \<Rightarrow> bool" where
  "record_invariants r =
     (module r \<in> VALID_MODULES
      \<and> \<not> is_blank (title r) \<and> \<not> is_blank (payload r)
      \<and> risk_level r \<in> VALID_RISK_LEVELS
      \<and> disabled_by_default r = PBool True
      \<and> (\<exists>ts. tags r = PList ts \<and> (\<forall>t \<in> set ts. is_str t))
      \<and> selector_exclusive r
      \<and> tzinfo (created_at r) \<noteq> None)"

text \<open>An element a generator may return passes re-validation when it is a valid record.\<close>

definition valid_item :: "pyobj \<Rightarrow> bool" where
  "valid_item x = (case x of Template t \<Rightarrow> record_invariants t | _ \<Rightarrow> False)"

text \<open>An element an exporter must refuse: not a record, or a record whose flag is not \<open>True\<close>.\<close>

definition refused_item :: "pyobj \<Rightarrow> bool" where
  "refused_item x = (case x of Template t \<Rightarrow> disabled_by_default t \<noteq> PBool True | _ \<Rightarrow> True)"

definition is_export_error :: "error + 'a \<Rightarrow> bool" where
  "is_export_error r = (case r of Inl (JSONExportError m c) \<Rightarrow> True
                                | Inl (TXTExportError m c) \<Rightarrow> True | _ \<Rightarrow> False)"

definition is_pipeline_error :: "error + 'a \<Rightarrow> bool" where
  "is_pipeline_error r = (case r of Inl (PipelineError m c) \<Rightarrow> True | _ \<Rightarrow> False)"

definition is_validation_error :: "error + 'a \<Rightarrow> bool" where
  "is_validation_error r = (case r of Inl (PayloadValidationError m) \<Rightarrow> True | _ \<Rightarrow> False)"


text \<open>The error of the re-validation names the module and the index of the offending element.\<close>

definition names_module_and_index :: "error \<Rightarrow> string \<Rightarrow> nat \<Rightarrow> bool" where
  "names_module_and_index err mname i =
     (case err of
        RegistryError (ItemNotTemplate j n) \<Rightarrow> j = i \<and> n = mname
      | PayloadValidationError (InvalidFromModule n j m) \<Rightarrow> j = i \<and> n = mname
      | _ \<Rightarrow> False)"

text \<open>A registry whose one module, \<open>stub\<close>, has a generator that returns the given object.\<close>

definition stub_registry :: "pyobj \<Rightarrow> module_registry" where
  "stub_registry obj =
     [(''stub'', \<lparr>name = ''stub'', generator = (\<lambda>e sel h. (Inr obj, h)),
                  requires_db = False, requires_os = False\<rparr>)]"

section \<open>Verified properties\<close>

subsection \<open>Encodings\<close>

lemma encode_payload_examples:
  "encode_payload (PStr ''TEST'') (Some ''base64'') = Inr ''VEVTVA==''"
  "encode_payload (PStr ''TEST TEMPLATE'') (Some ''url'') = Inr ''TEST%20TEMPLATE''"
  "encode_payload (PStr ''TEST'') (Some ''hex'') = Inr ''54455354''"
  by code_simp+

lemma encode_payload_empty:
  "strip s = [] \<Longrightarrow> is_encoding_error (encode_payload (PStr s) m)"
  by (simp add: encode_payload_def is_encoding_error_def)

lemma encode_payload_non_string:
  "\<forall>s. v \<noteq> PStr s \<Longrightarrow> is_encoding_error (encode_payload v m)"
  by (cases v) (simp_all add: encode_payload_def is_encoding_error_def)

lemma map_of_ENCODING_METHODS:
  "map_of ENCODING_METHODS n = None \<longleftrightarrow> n \<notin> {''url'', ''base64'', ''hex''}"
  by (simp add: ENCODING_METHODS_def)

lemma encode_payload_unknown_method:
  "normalize_name m \<notin> {''url'', ''base64'', ''hex''} \<Longrightarrow> is_encoding_error (encode_payload v m)"
  using map_of_ENCODING_METHODS[of "normalize_name m"]
  by (cases v) (auto simp add: encode_payload_def is_encoding_error_def)

text \<open>
  Claim C9. \<open>encode_payload('TEST', method='base64')\<close> is \<open>'VEVTVA=='\<close>,
  \<open>encode_payload('TEST TEMPLATE', method='url')\<close> is \<open>'TEST%20TEMPLATE'\<close> and
  \<open>encode_payload('TEST', method='hex')\<close> is \<open>'54455354'\<close>; and \<open>encode_payload\<close>
  raises an \<open>EncodingError\<close> for every input that is empty after trimming, for every
  input that is not a string, and for every method whose normalised name is not one of
  \<open>url\<close>, \<open>base64\<close>, \<open>hex\<close>.
\<close>

theorem C9_encode_payload:
  "encode_payload (PStr ''TEST'') (Some ''base64'') = Inr ''VEVTVA==''
   \<and> encode_payload (PStr ''TEST TEMPLATE'') (Some ''url'') = Inr ''TEST%20TEMPLATE''
   \<and> encode_payload (PStr ''TEST'') (Some ''hex'') = Inr ''54455354''
   \<and> (\<forall>s m. strip s = [] \<longrightarrow> is_encoding_error (encode_payload (PStr s) m))
   \<and> (\<forall>v m. (\<forall>s. v \<noteq> PStr s) \<longrightarrow> is_encoding_error (encode_payload v m))
   \<and> (\<forall>v m. normalize_name m \<notin> {''url'', ''base64'', ''hex''}
          \<longrightarrow> is_encoding_error (encode_payload v m))"
  using encode_payload_examples encode_payload_empty encode_payload_non_string
    encode_payload_unknown_method
  by blast

theorem C9_encode_payload_witness:
  "strip [CHR '' '', CHR 0x09] = []
   \<and> is_encoding_error (encode_payload (PStr [CHR '' '', CHR 0x09]) (Some ''url''))
   \<and> is_encoding_error (encode_payload (PInt 123) (Some ''url''))
   \<and> normalize_name (Some ''invalid'') \<notin> {''url'', ''base64'', ''hex''}
   \<and> is_encoding_error (encode_payload (PStr ''TEST'') (Some ''invalid''))"
proof -
  have a: "strip [CHR '' '', CHR 0x09] = []" by code_simp
  have b: "\<forall>s. PInt 123 \<noteq> PStr s" by simp
  have c: "normalize_name (Some ''invalid'') \<notin> {''url'', ''base64'', ''hex''}" by code_simp
  from C9_encode_payload a b c show ?thesis by blast
qed

subsection \<open>The record model\<close>

lemma tags_rule_None:
  "tags_rule t = None \<longleftrightarrow> (\<exists>ts. t = PList ts \<and> (\<forall>x \<in> set ts. is_str x))"
  by (cases t) (auto simp add: tags_rule_def list_ex_iff)

lemma module_rules_None:
  "module r \<in> VALID_MODULES \<Longrightarrow> module_rules r = None \<longleftrightarrow> selector_exclusive r"
  by (auto simp add: module_rules_def selector_exclusive_def VALID_MODULES_def falsy_def
        opt_in_def VALID_DB_TYPES_def VALID_OS_TYPES_def split: option.splits)

text \<open>\<open>_validate\<close> returns exactly on the records that have the seven invariants.\<close>

lemma validate_None_iff: "validate r = None \<longleftrightarrow> record_invariants r"
  using tags_rule_None[of "tags r"] module_rules_None[of r]
  by (auto simp add: validate_def record_invariants_def)

lemma construct_Inr: "construct r = Inr r' \<longleftrightarrow> r' = r \<and> record_invariants r"
  using validate_None_iff[of r] by (auto simp add: construct_def split: option.splits)

lemma construct_fails: "\<not> record_invariants r \<Longrightarrow> is_validation_error (construct r)"
  using validate_None_iff[of r]
  by (auto simp add: construct_def is_validation_error_def split: option.splits)

lemma sample_template_valid: "record_invariants sample_template"
  by (simp add: record_invariants_def sample_template_def VALID_MODULES_def
      VALID_RISK_LEVELS_def is_blank_def selector_exclusive_def opt_in_def
      VALID_XSS_CONTEXTS_def strip_def isspace_def codepoint_def)

text \<open>
  Claim C1. Every attempt to construct a \<open>PayloadTemplate\<close>, directly or through
  \<open>clone_with_updates\<close>, with \<open>disabled_by_default\<close> other than \<open>True\<close> fails with a
  \<open>PayloadValidationError\<close>; so every record that construction returns has
  \<open>disabled_by_default == True\<close>.
\<close>

theorem C1_disabled_by_default:
  "(disabled_by_default r \<noteq> PBool True \<longrightarrow> is_validation_error (construct r))
   \<and> (disabled_by_default (replaced r kwargs) \<noteq> PBool True
        \<longrightarrow> is_validation_error (clone_with_updates r kwargs))
   \<and> (v \<noteq> PBool True \<longrightarrow> is_validation_error (clone_with_updates r [Upd_disabled_by_default v]))
   \<and> (construct r = Inr r' \<longrightarrow> disabled_by_default r' = PBool True)
   \<and> (clone_with_updates r kwargs = Inr r'' \<longrightarrow> disabled_by_default r'' = PBool True)"
proof -
  have a: "\<And>x. disabled_by_default x \<noteq> PBool True \<Longrightarrow> is_validation_error (construct x)"
    by (rule construct_fails) (simp add: record_invariants_def)
  have b: "\<And>x y. construct x = Inr y \<Longrightarrow> disabled_by_default y = PBool True"
    by (simp add: construct_Inr record_invariants_def)
  have c: "disabled_by_default (replaced r [Upd_disabled_by_default v]) = v"
    by (simp add: replaced_def)
  show ?thesis using a b c unfolding clone_with_updates_def by metis
qed

theorem C1_disabled_by_default_witness:
  "is_validation_error (construct (sample_template\<lparr>disabled_by_default := PBool False\<rparr>))
   \<and> is_validation_error (clone_with_updates sample_template [Upd_disabled_by_default (PInt 1)])
   \<and> construct sample_template = Inr sample_template
   \<and> disabled_by_default sample_template = PBool True
   \<and> clone_with_updates sample_template [Upd_payload (PStr ''x'')]
        = Inr (sample_template\<lparr>payload := PStr ''x''\<rparr>)
   \<and> disabled_by_default (sample_template\<lparr>payload := PStr ''x''\<rparr>) = PBool True"
proof -
  have p1: "disabled_by_default (sample_template\<lparr>disabled_by_default := PBool False\<rparr>)
              \<noteq> PBool True" by simp
  have p2: "PInt 1 \<noteq> PBool True" by simp
  have p3: "construct sample_template = Inr sample_template"
    by (simp add: construct_Inr sample_template_valid)
  have "record_invariants (sample_template\<lparr>payload := PStr ''x''\<rparr>)"
    using sample_template_valid
    by (simp add: record_invariants_def selector_exclusive_def is_blank_def strip_def
        isspace_def codepoint_def)
  then have p4: "clone_with_updates sample_template [Upd_payload (PStr ''x'')]
        = Inr (sample_template\<lparr>payload := PStr ''x''\<rparr>)"
    by (simp add: clone_with_updates_def replaced_def construct_Inr)
  show ?thesis
    using C1_disabled_by_default[of "sample_template\<lparr>disabled_by_default := PBool False\<rparr>"]
      C1_disabled_by_default[of sample_template "[Upd_payload (PStr ''x'')]" "PInt 1"
        sample_template "sample_template\<lparr>payload := PStr ''x''\<rparr>"]
      p1 p2 p3 p4
    by blast
qed

text \<open>
  Claim C5. Selector exclusivity: constructing a record with module \<open>xss\<close> and a
  \<open>db_type\<close> that is not \<open>None\<close> fails with a validation error, and so do the other
  five forbidden combinations (xss with os_type, sqli with context, sqli with os_type,
  cmd with context, cmd with db_type); in every record that construction returns, exactly
  the selector that the module determines is populated.
\<close>

theorem C5_selector_exclusivity:
  "(module r = ''xss'' \<and> db_type r \<noteq> None \<longrightarrow> is_validation_error (construct r))
   \<and> (module r = ''xss'' \<and> os_type r \<noteq> None \<longrightarrow> is_validation_error (construct r))
   \<and> (module r = ''sqli'' \<and> context_sel r \<noteq> None \<longrightarrow> is_validation_error (construct r))
   \<and> (module r = ''sqli'' \<and> os_type r \<noteq> None \<longrightarrow> is_validation_error (construct r))
   \<and> (module r = ''cmd'' \<and> context_sel r \<noteq> None \<longrightarrow> is_validation_error (construct r))
   \<and> (module r = ''cmd'' \<and> db_type r \<noteq> None \<longrightarrow> is_validation_error (construct r))
   \<and> (construct r = Inr r' \<longrightarrow>
          (module r' = ''xss'' \<and> context_sel r' \<noteq> None \<and> db_type r' = None \<and> os_type r' = None)
        \<or> (module r' = ''sqli'' \<and> db_type r' \<noteq> None \<and> context_sel r' = None \<and> os_type r' = None)
        \<or> (module r' = ''cmd'' \<and> os_type r' \<noteq> None \<and> context_sel r' = None \<and> db_type r' = None))"
proof -
  have a: "\<not> selector_exclusive r \<Longrightarrow> is_validation_error (construct r)"
    by (rule construct_fails) (simp add: record_invariants_def)
  have b: "construct r = Inr r' \<Longrightarrow> selector_exclusive r' \<and> module r' \<in> VALID_MODULES"
    by (simp add: construct_Inr record_invariants_def)
  show ?thesis
    apply (intro conjI impI)
    using a apply (auto simp add: selector_exclusive_def)[6]
    using b apply (auto simp add: selector_exclusive_def VALID_MODULES_def opt_in_def
        split: option.splits)
    done
qed

theorem C5_selector_exclusivity_witness:
  "is_validation_error (construct (sample_template\<lparr>db_type := Some ''mysql''\<rparr>))
   \<and> is_validation_error (construct (sample_template\<lparr>os_type := Some ''linux''\<rparr>))
   \<and> is_validation_error (construct (sample_template\<lparr>module := ''sqli''\<rparr>))
   \<and> is_validation_error
        (construct (sample_template\<lparr>module := ''sqli'', context_sel := None,
                                     db_type := Some ''mysql'', os_type := Some ''linux''\<rparr>))
   \<and> is_validation_error (construct (sample_template\<lparr>module := ''cmd''\<rparr>))
   \<and> is_validation_error
        (construct (sample_template\<lparr>module := ''cmd'', context_sel := None,
                                     db_type := Some ''mysql'', os_type := Some ''linux''\<rparr>))
   \<and> construct sample_template = Inr sample_template
   \<and> module sample_template = ''xss'' \<and> context_sel sample_template \<noteq> None
   \<and> db_type sample_template = None \<and> os_type sample_template = None"
proof -
  have p: "construct sample_template = Inr sample_template"
    by (simp add: construct_Inr sample_template_valid)
  have q: "module sample_template = ''xss''" "context_sel sample_template = Some ''html''"
    "db_type sample_template = None" "os_type sample_template = None"
    by (simp_all add: sample_template_def)
  show ?thesis
    using C5_selector_exclusivity[of "sample_template\<lparr>db_type := Some ''mysql''\<rparr>"]
      C5_selector_exclusivity[of "sample_template\<lparr>os_type := Some ''linux''\<rparr>"]
      C5_selector_exclusivity[of "sample_template\<lparr>module := ''sqli''\<rparr>"]
      C5_selector_exclusivity[of "sample_template\<lparr>module := ''sqli'', context_sel := None,
                                     db_type := Some ''mysql'', os_type := Some ''linux''\<rparr>"]
      C5_selector_exclusivity[of "sample_template\<lparr>module := ''cmd''\<rparr>"]
      C5_selector_exclusivity[of "sample_template\<lparr>module := ''cmd'', context_sel := None,
                                     db_type := Some ''mysql'', os_type := Some ''linux''\<rparr>"]
      C5_selector_exclusivity[of sample_template sample_template]
      p q
    by simp
qed

subsection \<open>Obfuscation and the transformation history\<close>








subsection \<open>Hexadecimal encoding followed by obfuscation\<close>

lemma hex_digit_lower_in: "hex_digit_lower n \<in> set ''0123456789abcdef''"
  unfolding hex_digit_lower_def by (rule nth_mem) simp

lemma hex_encode_chars: "set (hex_encode s) \<subseteq> set ''0123456789abcdef''"
  using hex_digit_lower_in by (auto simp add: hex_encode_def hexlify_byte_def)

lemma no_bracket_marker: "CHR ''<'' \<notin> set s \<Longrightarrow> \<not> search_bracket_marker s"
  by (induction s) (auto simp add: starts_with_def)

lemma no_template_word:
  "\<forall>c \<in> set s. lower_char c \<noteq> CHR ''t'' \<Longrightarrow> \<not> search_template_word p s"
  by (induction s arbitrary: p) (auto simp add: lower_def)


lemma hex_digit_not_space: "c \<in> set ''0123456789abcdef'' \<Longrightarrow> \<not> isspace c"
  by (auto simp add: isspace_def codepoint_def)


lemma strip_no_space: "\<forall>c \<in> set t. \<not> isspace c \<Longrightarrow> strip t = t"
proof -
  assume a: "\<forall>c \<in> set t. \<not> isspace c"
  have d: "\<And>xs. \<forall>c \<in> set xs. \<not> isspace c \<Longrightarrow> dropWhile isspace xs = xs"
    by (case_tac xs) auto
  from a show ?thesis by (simp add: strip_def d)
qed

lemma hex_encode_not_empty: "s \<noteq> [] \<Longrightarrow> hex_encode s \<noteq> []"
  by (cases s) (auto simp add: hex_encode_def utf8_encode_def utf8_char_def hexlify_byte_def Let_def)

lemma hex_encode_not_blank: "strip s \<noteq> [] \<Longrightarrow> \<not> is_blank (PStr (hex_encode s))"
proof -
  assume "strip s \<noteq> []"
  then have "s \<noteq> []" by (auto simp add: strip_def)
  then have "hex_encode s \<noteq> []" by (rule hex_encode_not_empty)
  moreover have "strip (hex_encode s) = hex_encode s"
    using hex_encode_chars[of s] hex_digit_not_space by (intro strip_no_space) blast
  ultimately show ?thesis by (simp add: is_blank_def)
qed







subsection \<open>What the registered generators return\<close>

lemma check_items_Inr:
  "check_items mname i xs = Inr ts \<Longrightarrow>
     xs = map Template ts \<and> (\<forall>t \<in> set ts. record_invariants t)"
proof (induction xs arbitrary: i ts)
  case Nil
  then show ?case by auto
next
  case (Cons x xs)
  from Cons.prems obtain t where x: "x = Template t" by (cases x) auto
  from Cons.prems x have v: "validate t = None" by (cases "validate t") auto
  from Cons.prems x v obtain ts' where
    rec: "check_items mname (Suc i) xs = Inr ts'" and ts: "ts = t # ts'"
    by (cases "check_items mname (Suc i) xs") (auto simp add: bind_err_def)
  from Cons.IH[OF rec] x v ts show ?case by (simp add: validate_None_iff)
qed

lemma new_templates_length:
  "new_templates e args h = (Inr rs, h') \<Longrightarrow> length rs = length args"
proof (induction args arbitrary: h rs h')
  case Nil
  then show ?case by simp
next
  case (Cons a args)
  obtain r1 h1 where n1: "new_template e a h = (r1, h1)" by fastforce
  with Cons.prems obtain r where r1: "r1 = Inr r" by (cases r1) auto
  obtain r2 h2 where n2: "new_templates e args h1 = (r2, h2)" by fastforce
  with Cons.prems n1 r1 obtain rs' where r2: "r2 = Inr rs'" and rs: "rs = r # rs'"
    by (cases r2) auto
  from Cons.IH[of h1 rs' h2] n2 r2 rs show ?case by simp
qed

lemma returned_Inr:
  "returned (new_templates e args h) = (Inr obj, h') \<Longrightarrow> args \<noteq> [] \<Longrightarrow>
     \<exists>rs. obj = ObjList (map Template rs) \<and> rs \<noteq> []"
proof -
  assume a: "returned (new_templates e args h) = (Inr obj, h')" and ne: "args \<noteq> []"
  obtain r1 h1 where n: "new_templates e args h = (r1, h1)" by fastforce
  with a obtain rs where r1: "r1 = Inr rs" and obj: "obj = ObjList (map Template rs)"
    by (cases r1) (auto simp add: returned_def)
  from new_templates_length[of e args h rs h1] n r1 ne have "rs \<noteq> []" by auto
  with obj show ?thesis by blast
qed

lemma xss_generate_nonempty:
  "xss_generate_payloads e context h = (Inr obj, h') \<Longrightarrow>
     \<exists>rs. obj = ObjList (map Template rs) \<and> rs \<noteq> []"
proof -
  assume a: "xss_generate_payloads e context h = (Inr obj, h')"
  then obtain ctx where c: "normalize_context context = Inr ctx"
    by (cases "normalize_context context") (auto simp add: xss_generate_payloads_def)
  then have ctx: "ctx \<in> {None, Some ''html'', Some ''attr'', Some ''js''}"
    by (auto simp add: normalize_context_def Let_def split: option.splits if_splits)
  have ne: "XSS_HTML_TEMPLATES \<noteq> []" "XSS_ATTR_TEMPLATES \<noteq> []" "XSS_JS_TEMPLATES \<noteq> []"
    by (simp_all add: XSS_HTML_TEMPLATES_def XSS_ATTR_TEMPLATES_def XSS_JS_TEMPLATES_def)
  let ?args = "(if ctx \<in> {None, Some ''html''} then XSS_HTML_TEMPLATES else [])
             @ (if ctx \<in> {None, Some ''attr''} then XSS_ATTR_TEMPLATES else [])
             @ (if ctx \<in> {None, Some ''js''} then XSS_JS_TEMPLATES else [])"
  from ctx ne have "?args \<noteq> []" by auto
  moreover from a c have "returned (new_templates e ?args h) = (Inr obj, h')"
    by (simp add: xss_generate_payloads_def)
  ultimately show ?thesis by (rule returned_Inr[rotated])
qed

lemma sqli_generate_nonempty:
  "sqli_generate_payloads e sel h = (Inr obj, h') \<Longrightarrow>
     \<exists>rs. obj = ObjList (map Template rs) \<and> rs \<noteq> []"
proof -
  assume a: "sqli_generate_payloads e sel h = (Inr obj, h')"
  then obtain db where c: "normalize_db sel = Inr db"
    by (cases "normalize_db sel") (auto simp add: sqli_generate_payloads_def)
  have "SQLI_TEMPLATES \<noteq> []" by (simp add: SQLI_TEMPLATES_def)
  then have "map (sqli_template db) SQLI_TEMPLATES \<noteq> []" by simp
  moreover from a c have "returned (new_templates e (map (sqli_template db) SQLI_TEMPLATES) h)
      = (Inr obj, h')"
    by (simp add: sqli_generate_payloads_def)
  ultimately show ?thesis by (rule returned_Inr[rotated])
qed

lemma cmd_generate_nonempty:
  "cmd_generate_payloads e sel h = (Inr obj, h') \<Longrightarrow>
     \<exists>rs. obj = ObjList (map Template rs) \<and> rs \<noteq> []"
proof -
  assume a: "cmd_generate_payloads e sel h = (Inr obj, h')"
  then obtain os_norm where c: "normalize_os sel = Inr os_norm"
    by (cases "normalize_os sel") (auto simp add: cmd_generate_payloads_def)
  have "CMD_TEMPLATES \<noteq> []" by (simp add: CMD_TEMPLATES_def)
  then have "map (cmd_template os_norm) CMD_TEMPLATES \<noteq> []" by simp
  moreover from a c have "returned (new_templates e (map (cmd_template os_norm) CMD_TEMPLATES) h)
      = (Inr obj, h')"
    by (simp add: cmd_generate_payloads_def)
  ultimately show ?thesis by (rule returned_Inr[rotated])
qed

lemma registry_generator_nonempty:
  "map_of registry mname = Some spec \<Longrightarrow> generator spec e sel h = (Inr obj, h') \<Longrightarrow>
     \<exists>rs. obj = ObjList (map Template rs) \<and> rs \<noteq> []"
  using xss_generate_nonempty sqli_generate_nonempty cmd_generate_nonempty
  by (auto simp add: registry_def split: if_splits)

text \<open>Generation on the global registry returns at least one record, all of them valid.\<close>

lemma registry_generate_Inr:
  "registry_generate registry e mname db os ctx h = (Inr items, h') \<Longrightarrow>
     items \<noteq> [] \<and> (\<forall>t \<in> set items. record_invariants t)"
proof -
  assume a: "registry_generate registry e mname db os ctx h = (Inr items, h')"
  then obtain spec where sp: "get_spec registry mname = Inr spec"
    by (cases "get_spec registry mname")
       (auto simp add: registry_generate_def split: sum.splits)
  then have m: "map_of registry mname = Some spec"
    by (auto simp add: get_spec_def split: option.splits)
  let ?sel = "if requires_db spec then db else if requires_os spec then os else ctx"
  obtain r1 h1 where g: "generator spec e ?sel h = (r1, h1)" by fastforce
  from a sp g obtain obj where r1: "r1 = Inr obj"
    by (cases r1) (auto simp add: registry_generate_def split: sum.splits)
  from registry_generator_nonempty[OF m] g r1 obtain rs where
    obj: "obj = ObjList (map Template rs)" and ne: "rs \<noteq> []" by blast
  from a sp g r1 obj have "check_items mname 0 (map Template rs) = Inr items"
    by (auto simp add: registry_generate_def split: sum.splits)
  from check_items_Inr[OF this] have "map Template rs = map Template items"
    and v: "\<forall>t \<in> set items. record_invariants t" by auto
  then have "length rs = length items" by (metis length_map)
  with ne v show ?thesis by auto
qed

lemma pipeline_generate_cases:
  "pipeline_generate registry e mname db os ctx h = (res, h') \<Longrightarrow>
     is_pipeline_error res \<or> (\<exists>items. res = Inr items \<and> items \<noteq> []
        \<and> (\<forall>t \<in> set items. record_invariants t))"
proof -
  assume a: "pipeline_generate registry e mname db os ctx h = (res, h')"
  obtain r1 h1 where g: "registry_generate registry e mname db os ctx h = (r1, h1)"
    by fastforce
  show ?thesis
  proof (cases r1)
    case (Inl err)
    with a g show ?thesis by (auto simp add: pipeline_generate_def is_pipeline_error_def)
  next
    case (Inr items)
    with a g registry_generate_Inr[of e mname db os ctx h items h1]
    show ?thesis by (auto simp add: pipeline_generate_def)
  qed
qed





subsection \<open>The registry\<close>

lemma list_modules_registry: "list_modules registry = [''cmd'', ''sqli'', ''xss'']"
  by code_simp

lemma registry_generate_not_registered:
  "map_of reg mname = None \<Longrightarrow>
     registry_generate reg e mname db os ctx h
       = (Inl (RegistryError (NotRegistered mname (list_modules reg))), h)"
  by (simp add: registry_generate_def validate_selectors_def get_spec_def bind_err_def)

lemma registry_generate_sqli:
  "falsy db \<Longrightarrow> registry_generate registry e ''sqli'' db os ctx h
       = (Inl (RegistryError (RequiresSelector ''sqli'' ''db_type'')), h)"
  by (simp add: registry_generate_def validate_selectors_def get_spec_def bind_err_def
      registry_def)

lemma registry_generate_cmd:
  "falsy os \<Longrightarrow> registry_generate registry e ''cmd'' db os ctx h
       = (Inl (RegistryError (RequiresSelector ''cmd'' ''os_type'')), h)"
  by (simp add: registry_generate_def validate_selectors_def get_spec_def bind_err_def
      registry_def)

lemma registry_generate_xss:
  "falsy ctx \<Longrightarrow> registry_generate registry e ''xss'' db os ctx h
       = (Inl (RegistryError (RequiresSelector ''xss'' ''context'')), h)"
  by (simp add: registry_generate_def validate_selectors_def get_spec_def bind_err_def
      registry_def)

text \<open>
  Claim C6. \<open>Registry.generate\<close> raises a \<open>RegistryError\<close> when the module name is not
  registered, and the error lists the available modules; when it is called for \<open>sqli\<close>
  without a db_type, for \<open>cmd\<close> without an os_type, and for \<open>xss\<close> without a
  non-empty context; the four errors are distinct.
\<close>

theorem C6_registry_errors:
  "(map_of reg mname = None \<longrightarrow>
      registry_generate reg e mname db os ctx h
        = (Inl (RegistryError (NotRegistered mname (list_modules reg))), h))
   \<and> list_modules registry = [''cmd'', ''sqli'', ''xss'']
   \<and> (falsy db \<longrightarrow> registry_generate registry e ''sqli'' db os ctx h
        = (Inl (RegistryError (RequiresSelector ''sqli'' ''db_type'')), h))
   \<and> (falsy os \<longrightarrow> registry_generate registry e ''cmd'' db os ctx h
        = (Inl (RegistryError (RequiresSelector ''cmd'' ''os_type'')), h))
   \<and> (falsy ctx \<longrightarrow> registry_generate registry e ''xss'' db os ctx h
        = (Inl (RegistryError (RequiresSelector ''xss'' ''context'')), h))
   \<and> distinct [NotRegistered mname (list_modules reg), RequiresSelector ''sqli'' ''db_type'',
               RequiresSelector ''cmd'' ''os_type'', RequiresSelector ''xss'' ''context'']"
  using registry_generate_not_registered[of reg mname e db os ctx h]
    registry_generate_sqli[of db e os ctx h] registry_generate_cmd[of os e db ctx h]
    registry_generate_xss[of ctx e db os h] list_modules_registry
  by simp

theorem C6_registry_errors_witness:
  "map_of registry ''invalid_module'' = None
   \<and> registry_generate registry sample_env ''invalid_module'' None None None sample_store
       = (Inl (RegistryError (NotRegistered ''invalid_module'' [''cmd'', ''sqli'', ''xss''])),
          sample_store)
   \<and> falsy None \<and> falsy (Some '''')
   \<and> registry_generate registry sample_env ''sqli'' None None None sample_store
       = (Inl (RegistryError (RequiresSelector ''sqli'' ''db_type'')), sample_store)
   \<and> registry_generate registry sample_env ''cmd'' None None None sample_store
       = (Inl (RegistryError (RequiresSelector ''cmd'' ''os_type'')), sample_store)
   \<and> registry_generate registry sample_env ''xss'' None None (Some '''') sample_store
       = (Inl (RegistryError (RequiresSelector ''xss'' ''context'')), sample_store)"
proof -
  have a: "map_of registry ''invalid_module'' = None" by (simp add: registry_def)
  have b: "falsy None" "falsy (Some '''')" by (simp_all add: falsy_def)
  show ?thesis
    using a b
      C6_registry_errors[where reg = registry and mname = "''invalid_module''"
        and e = sample_env and db = None and os = None and ctx = None and h = sample_store]
      C6_registry_errors[where reg = registry and mname = "''invalid_module''"
        and e = sample_env and db = None and os = None and ctx = "Some ''''"
        and h = sample_store]
    by simp
qed

lemma first_invalid:
  "\<exists>x \<in> set xs. \<not> P x \<Longrightarrow> \<exists>k < length xs. \<not> P (xs ! k) \<and> (\<forall>j < k. P (xs ! j))"
proof (induction xs)
  case Nil
  then show ?case by simp
next
  case (Cons x xs)
  show ?case
  proof (cases "P x")
    case False
    then have "\<not> P ((x # xs) ! 0) \<and> (\<forall>j < 0. P ((x # xs) ! j))" by simp
    then show ?thesis by blast
  next
    case True
    with Cons.prems have "\<exists>y \<in> set xs. \<not> P y" by auto
    from Cons.IH[OF this] obtain k where
      k: "k < length xs" "\<not> P (xs ! k)" "\<forall>j < k. P (xs ! j)" by blast
    have "\<forall>j < Suc k. P ((x # xs) ! j)"
      using True k(3) by (auto simp add: less_Suc_eq_0_disj)
    with k(1,2) have "Suc k < length (x # xs) \<and> \<not> P ((x # xs) ! Suc k)
        \<and> (\<forall>j < Suc k. P ((x # xs) ! j))" by simp
    then show ?thesis by blast
  qed
qed

lemma valid_item_Template: "valid_item x \<longleftrightarrow> (\<exists>t. x = Template t \<and> validate t = None)"
  by (cases x) (simp_all add: valid_item_def validate_None_iff)

lemma check_items_first_invalid:
  "k < length xs \<Longrightarrow> \<not> valid_item (xs ! k) \<Longrightarrow> \<forall>j < k. valid_item (xs ! j) \<Longrightarrow>
     \<exists>err. check_items mname i xs = Inl err \<and> names_module_and_index err mname (i + k)"
proof (induction xs arbitrary: i k)
  case Nil
  then show ?case by simp
next
  case (Cons x xs)
  show ?case
  proof (cases k)
    case 0
    with Cons.prems have bad: "\<not> valid_item x" by simp
    show ?thesis
    proof (cases x)
      case (Template t)
      with bad obtain m where "validate t = Some m"
        by (cases "validate t") (auto simp add: valid_item_Template)
      with Template 0 show ?thesis by (simp add: names_module_and_index_def)
    next
      case (ObjList ys)
      with 0 show ?thesis by (simp add: names_module_and_index_def)
    next
      case (Plain v)
      with 0 show ?thesis by (simp add: names_module_and_index_def)
    qed
  next
    case (Suc k')
    with Cons.prems have "valid_item x" by auto
    then obtain t where t: "x = Template t" "validate t = None"
      by (auto simp add: valid_item_Template)
    from Cons.prems Suc have "k' < length xs" "\<not> valid_item (xs ! k')"
      "\<forall>j < k'. valid_item (xs ! j)" by auto
    from Cons.IH[OF this, of "Suc i"] obtain err where
      "check_items mname (Suc i) xs = Inl err" "names_module_and_index err mname (Suc i + k')"
      by blast
    with t Suc show ?thesis by (simp add: bind_err_def)
  qed
qed

lemma check_items_all_valid:
  "\<forall>x \<in> set xs. valid_item x \<Longrightarrow> \<exists>ts. check_items mname i xs = Inr ts \<and> map Template ts = xs"
proof (induction xs arbitrary: i)
  case Nil
  then show ?case by simp
next
  case (Cons x xs)
  then obtain t where t: "x = Template t" "validate t = None"
    by (auto simp add: valid_item_Template)
  from Cons.prems Cons.IH[of "Suc i"] obtain ts where
    "check_items mname (Suc i) xs = Inr ts" "map Template ts = xs" by auto
  with t show ?case by (simp add: bind_err_def)
qed

lemma registry_generate_after_generator:
  assumes "validate_selectors reg mname db os ctx = Inr ()"
    and "get_spec reg mname = Inr spec"
    and "generator spec e (if requires_db spec then db else if requires_os spec then os else ctx) h
           = (Inr obj, h')"
  shows "registry_generate reg e mname db os ctx h =
           (case as_list obj of
              None \<Rightarrow> (Inl (RegistryError (MustReturnList mname)), h')
            | Some xs \<Rightarrow> (check_items mname 0 xs, h'))"
  using assms by (simp add: registry_generate_def)

text \<open>
  Claim C7. \<open>Registry.generate\<close> re-validates what the generator returns: when that is
  not a list, it fails; when an element is not a \<open>PayloadTemplate\<close> or violates one of
  the seven record invariants, it fails with an error that names the module and the index
  of the (first) offending element; otherwise it returns the generator's list unchanged.
\<close>

theorem C7_registry_revalidates:
  assumes "validate_selectors reg mname db os ctx = Inr ()"
    and "get_spec reg mname = Inr spec"
    and "generator spec e (if requires_db spec then db else if requires_os spec then os else ctx) h
           = (Inr obj, h')"
  shows "(as_list obj = None \<longrightarrow>
            registry_generate reg e mname db os ctx h
              = (Inl (RegistryError (MustReturnList mname)), h'))
       \<and> (\<forall>xs. as_list obj = Some xs \<and> (\<exists>x \<in> set xs. \<not> valid_item x) \<longrightarrow>
            (\<exists>k err. k < length xs \<and> \<not> valid_item (xs ! k) \<and> (\<forall>j < k. valid_item (xs ! j))
               \<and> registry_generate reg e mname db os ctx h = (Inl err, h')
               \<and> names_module_and_index err mname k))
       \<and> (\<forall>xs. as_list obj = Some xs \<and> (\<forall>x \<in> set xs. valid_item x) \<longrightarrow>
            (\<exists>ts. registry_generate reg e mname db os ctx h = (Inr ts, h')
               \<and> map Template ts = xs))"
proof (intro conjI allI impI)
  assume "as_list obj = None"
  then show "registry_generate reg e mname db os ctx h
      = (Inl (RegistryError (MustReturnList mname)), h')"
    by (simp add: registry_generate_after_generator[OF assms])
next
  fix xs
  assume a: "as_list obj = Some xs \<and> (\<exists>x \<in> set xs. \<not> valid_item x)"
  then have "\<exists>x \<in> set xs. \<not> valid_item x" by simp
  from first_invalid[OF this] obtain k where
    k: "k < length xs" "\<not> valid_item (xs ! k)" "\<forall>j < k. valid_item (xs ! j)" by blast
  from check_items_first_invalid[OF k, of mname 0] obtain err where
    "check_items mname 0 xs = Inl err" "names_module_and_index err mname k" by auto
  with a k show "\<exists>k err. k < length xs \<and> \<not> valid_item (xs ! k)
      \<and> (\<forall>j < k. valid_item (xs ! j))
      \<and> registry_generate reg e mname db os ctx h = (Inl err, h')
      \<and> names_module_and_index err mname k"
    by (auto simp add: registry_generate_after_generator[OF assms])
next
  fix xs
  assume a: "as_list obj = Some xs \<and> (\<forall>x \<in> set xs. valid_item x)"
  then have "\<forall>x \<in> set xs. valid_item x" by simp
  from check_items_all_valid[OF this, of mname 0] a
  show "\<exists>ts. registry_generate reg e mname db os ctx h = (Inr ts, h') \<and> map Template ts = xs"
    by (auto simp add: registry_generate_after_generator[OF assms])
qed

lemma stub_registry_premises:
  "validate_selectors (stub_registry obj) ''stub'' None None None = Inr ()"
  "get_spec (stub_registry obj) ''stub''
     = Inr \<lparr>name = ''stub'', generator = (\<lambda>e sel h. (Inr obj, h)),
            requires_db = False, requires_os = False\<rparr>"
  by (simp_all add: stub_registry_def validate_selectors_def get_spec_def bind_err_def)

theorem C7_registry_revalidates_witness:
  "registry_generate (stub_registry (Plain (PInt 5))) sample_env ''stub'' None None None
       sample_store
     = (Inl (RegistryError (MustReturnList ''stub'')), sample_store)
   \<and> (\<exists>err. registry_generate
          (stub_registry (ObjList [Template sample_template, Plain (PInt 123)]))
          sample_env ''stub'' None None None sample_store = (Inl err, sample_store)
        \<and> names_module_and_index err ''stub'' 1)
   \<and> (\<exists>err. registry_generate
          (stub_registry (ObjList [Template (sample_template\<lparr>disabled_by_default := PBool False\<rparr>)]))
          sample_env ''stub'' None None None sample_store = (Inl err, sample_store)
        \<and> names_module_and_index err ''stub'' 0)
   \<and> registry_generate (stub_registry (ObjList [Template sample_template])) sample_env ''stub''
       None None None sample_store
     = (Inr [sample_template], sample_store)"
proof -
  let ?spec = "\<lambda>obj. \<lparr>name = ''stub'', generator = (\<lambda>e sel h. (Inr obj, h)),
            requires_db = False, requires_os = False\<rparr>"
  have g: "\<And>obj. generator (?spec obj) sample_env
      (if requires_db (?spec obj) then None else if requires_os (?spec obj) then None else None)
      sample_store = (Inr obj, sample_store)" by simp
  note c7 = C7_registry_revalidates[OF stub_registry_premises g]
  have ok: "valid_item (Template sample_template)"
    by (simp add: valid_item_def sample_template_valid)
  have bad1: "\<not> valid_item (Plain (PInt 123))" by (simp add: valid_item_def)
  have bad2: "\<not> valid_item (Template (sample_template\<lparr>disabled_by_default := PBool False\<rparr>))"
    by (simp add: valid_item_def record_invariants_def)
  have c1: "registry_generate (stub_registry (Plain (PInt 5))) sample_env ''stub'' None None None
       sample_store = (Inl (RegistryError (MustReturnList ''stub'')), sample_store)"
  proof -
    have "as_list (Plain (PInt 5)) = None" by simp
    with c7[of "Plain (PInt 5)", THEN conjunct1] show ?thesis by (rule mp)
  qed
  have c2: "\<exists>err. registry_generate
          (stub_registry (ObjList [Template sample_template, Plain (PInt 123)]))
          sample_env ''stub'' None None None sample_store = (Inl err, sample_store)
        \<and> names_module_and_index err ''stub'' 1"
  proof -
    let ?xs = "[Template sample_template, Plain (PInt 123)]"
    have p: "as_list (ObjList ?xs) = Some ?xs \<and> (\<exists>x \<in> set ?xs. \<not> valid_item x)"
      using bad1 by simp
    from c7[of "ObjList ?xs", THEN conjunct2, THEN conjunct1, rule_format, OF p]
    obtain k err where k: "k < length ?xs" "\<not> valid_item (?xs ! k)"
      and r: "registry_generate (stub_registry (ObjList ?xs))
          sample_env ''stub'' None None None sample_store = (Inl err, sample_store)"
        "names_module_and_index err ''stub'' k"
      by blast
    from k ok have "k = 1" by (cases k) auto
    with r show ?thesis by blast
  qed
  have c3: "\<exists>err. registry_generate
          (stub_registry (ObjList [Template (sample_template\<lparr>disabled_by_default := PBool False\<rparr>)]))
          sample_env ''stub'' None None None sample_store = (Inl err, sample_store)
        \<and> names_module_and_index err ''stub'' 0"
  proof -
    let ?xs = "[Template (sample_template\<lparr>disabled_by_default := PBool False\<rparr>)]"
    have p: "as_list (ObjList ?xs) = Some ?xs \<and> (\<exists>x \<in> set ?xs. \<not> valid_item x)"
      using bad2 by simp
    from c7[of "ObjList ?xs", THEN conjunct2, THEN conjunct1, rule_format, OF p]
    obtain k err where k: "k < length ?xs"
      and r: "registry_generate (stub_registry (ObjList ?xs))
          sample_env ''stub'' None None None sample_store = (Inl err, sample_store)"
        "names_module_and_index err ''stub'' k"
      by blast
    from k have "k = 0" by simp
    with r show ?thesis by blast
  qed
  have c4: "registry_generate (stub_registry (ObjList [Template sample_template])) sample_env
       ''stub'' None None None sample_store = (Inr [sample_template], sample_store)"
  proof -
    let ?xs = "[Template sample_template]"
    have p: "as_list (ObjList ?xs) = Some ?xs \<and> (\<forall>x \<in> set ?xs. valid_item x)"
      using ok by simp
    from c7[of "ObjList ?xs", THEN conjunct2, THEN conjunct2, rule_format, OF p]
    obtain ts where "registry_generate (stub_registry (ObjList ?xs))
          sample_env ''stub'' None None None sample_store = (Inr ts, sample_store)"
      and "map Template ts = ?xs" by (elim exE conjE)
    then show ?thesis by auto
  qed
  from c1 c2 c3 c4 show ?thesis by blast
qed

subsection \<open>The exporters\<close>

lemma json_validate_items_refused:
  "\<exists>x \<in> set items. refused_item x \<Longrightarrow>
     \<exists>m. json_validate_items i items = Inl (JSONExportError m None)"
proof (induction items arbitrary: i)
  case Nil
  then show ?case by simp
next
  case (Cons x items)
  show ?case
  proof (cases "refused_item x")
    case True
    then show ?thesis by (cases x) (auto simp add: refused_item_def)
  next
    case False
    then obtain t where t: "x = Template t" "disabled_by_default t = PBool True"
      by (cases x) (auto simp add: refused_item_def)
    from False Cons.prems have "\<exists>y \<in> set items. refused_item y" by auto
    from Cons.IH[OF this, of "Suc i"] t show ?thesis by (auto simp add: bind_err_def)
  qed
qed

lemma txt_validate_items_refused:
  "\<exists>x \<in> set items. refused_item x \<Longrightarrow>
     \<exists>m. txt_validate_items i items = Inl (TXTExportError m None)"
proof (induction items arbitrary: i)
  case Nil
  then show ?case by simp
next
  case (Cons x items)
  show ?case
  proof (cases "refused_item x")
    case True
    then show ?thesis by (cases x) (auto simp add: refused_item_def)
  next
    case False
    then obtain t where t: "x = Template t" "disabled_by_default t = PBool True"
      by (cases x) (auto simp add: refused_item_def)
    from False Cons.prems have "\<exists>y \<in> set items. refused_item y" by auto
    from Cons.IH[OF this, of "Suc i"] t show ?thesis by (auto simp add: bind_err_def)
  qed
qed

text \<open>
  The atomic write never touches the destination unless it succeeds: every failure leaves
  the file at the destination path as it was.
\<close>

lemma atomic_write_text_failure:
  "atomic_write_text io path content fs = (Inl err, fs') \<Longrightarrow> fs' path = fs path"
  by (auto simp add: atomic_write_text_def cleanup_tmp_def Let_def
      split: if_splits option.splits)

lemma atomic_write_text_success:
  "atomic_write_text io path content fs = (Inr u, fs') \<Longrightarrow> fs' path = Some content"
  by (auto simp add: atomic_write_text_def cleanup_tmp_def Let_def
      split: if_splits option.splits)

lemma json_reraise_is_export_error: "is_export_error (Inl (json_reraise err))"
  by (cases err) (simp_all add: json_reraise_def is_export_error_def)

lemma txt_reraise_is_export_error: "is_export_error (Inl (txt_reraise err))"
  by (cases err) (simp_all add: txt_reraise_def is_export_error_def)

lemma export_json_refused:
  "\<exists>x \<in> set items. refused_item x \<Longrightarrow>
     \<exists>m. export_json e io h items path pretty wrapper meta fs
            = (Inl (JSONExportError m None), fs)"
proof -
  assume "\<exists>x \<in> set items. refused_item x"
  from json_validate_items_refused[OF this, of 0] obtain m where
    "json_validate_items 0 items = Inl (JSONExportError m None)" by blast
  then have "export_json e io h items path pretty wrapper meta fs
      = (Inl (JSONExportError m None), fs)"
    by (simp add: export_json_def json_text_of_def bind_err_def reraised_def json_reraise_def)
  then show ?thesis by blast
qed

lemma export_txt_refused:
  "\<exists>x \<in> set items. refused_item x \<Longrightarrow>
     \<exists>m. export_txt e io h items path header meta width fs
            = (Inl (TXTExportError m None), fs)"
proof -
  assume "\<exists>x \<in> set items. refused_item x"
  from txt_validate_items_refused[OF this, of 0] obtain m where
    "txt_validate_items 0 items = Inl (TXTExportError m None)" by blast
  then have "export_txt e io h items path header meta width fs
      = (Inl (TXTExportError m None), fs)"
    by (simp add: export_txt_def bind_err_def reraised_def txt_reraise_def)
  then show ?thesis by blast
qed

lemma export_json_failure:
  "export_json e io h items path pretty wrapper meta fs = (Inl err, fs') \<Longrightarrow>
     is_export_error (Inl err :: error + string) \<and> fs' path = fs path"
proof -
  assume a: "export_json e io h items path pretty wrapper meta fs = (Inl err, fs')"
  show ?thesis
  proof (cases "reraised json_reraise (json_text_of e h items pretty wrapper meta)")
    case (Inl err1)
    then obtain err0 where "err1 = json_reraise err0"
      by (auto simp add: reraised_def split: sum.splits)
    with a Inl show ?thesis
      using json_reraise_is_export_error[of err0]
      by (auto simp add: export_json_def is_export_error_def)
  next
    case (Inr json_text)
    obtain r2 fs2 where w: "atomic_write_text io path json_text fs = (r2, fs2)" by fastforce
    with a Inr obtain err2 where r2: "r2 = Inl err2" and e: "err = json_reraise err2"
      and f: "fs' = fs2"
      by (cases r2) (auto simp add: export_json_def)
    from w r2 have "fs2 path = fs path" by (auto dest: atomic_write_text_failure)
    with e f show ?thesis
      using json_reraise_is_export_error[of err2] by (simp add: is_export_error_def)
  qed
qed

lemma export_txt_failure:
  "export_txt e io h items path header meta width fs = (Inl err, fs') \<Longrightarrow>
     is_export_error (Inl err :: error + string) \<and> fs' path = fs path"
proof -
  assume a: "export_txt e io h items path header meta width fs = (Inl err, fs')"
  let ?content = "reraised txt_reraise
             (bind_err (txt_validate_items 0 items) (\<lambda>validated.
                format_txt e h validated header meta width))"
  show ?thesis
  proof (cases ?content)
    case (Inl err1)
    then obtain err0 where "err1 = txt_reraise err0"
      by (auto simp add: reraised_def split: sum.splits)
    with a Inl show ?thesis
      using txt_reraise_is_export_error[of err0]
      by (auto simp add: export_txt_def is_export_error_def)
  next
    case (Inr content)
    obtain r2 fs2 where w: "atomic_write_text io path content fs = (r2, fs2)" by fastforce
    with a Inr obtain err2 where r2: "r2 = Inl err2" and e: "err = txt_reraise err2"
      and f: "fs' = fs2"
      by (cases r2) (auto simp add: export_txt_def)
    from w r2 have "fs2 path = fs path" by (auto dest: atomic_write_text_failure)
    with e f show ?thesis
      using txt_reraise_is_export_error[of err2] by (simp add: is_export_error_def)
  qed
qed

text \<open>
  Claim C4. For every input sequence given to either exporter, when an element is not a
  \<open>PayloadTemplate\<close> or has \<open>disabled_by_default\<close> other than \<open>True\<close>, the export
  fails with an export error and the file system is as before (nothing was written); and
  on every failure of an export the error is an export error and the destination file is
  unchanged: absent if it was absent, with its prior content otherwise.
\<close>

theorem C4_export_refuses_and_is_atomic:
  "((\<exists>x \<in> set items. refused_item x) \<longrightarrow>
       is_export_error (fst (export_json e io h items path pretty wrapper meta fs))
     \<and> snd (export_json e io h items path pretty wrapper meta fs) = fs
     \<and> is_export_error (fst (export_txt e io h items path header meta width fs))
     \<and> snd (export_txt e io h items path header meta width fs) = fs)
   \<and> (export_json e io h items path pretty wrapper meta fs = (Inl err, fs') \<longrightarrow>
       is_export_error (Inl err :: error + string) \<and> fs' path = fs path)
   \<and> (export_txt e io h items path header meta width fs = (Inl err, fs') \<longrightarrow>
       is_export_error (Inl err :: error + string) \<and> fs' path = fs path)"
proof (intro conjI impI)
  assume r: "\<exists>x \<in> set items. refused_item x"
  from export_json_refused[OF r, of e io h path pretty wrapper meta fs]
  show "is_export_error (fst (export_json e io h items path pretty wrapper meta fs))"
    and "snd (export_json e io h items path pretty wrapper meta fs) = fs"
    by (auto simp add: is_export_error_def)
  from export_txt_refused[OF r, of e io h path header meta width fs]
  show "is_export_error (fst (export_txt e io h items path header meta width fs))"
    and "snd (export_txt e io h items path header meta width fs) = fs"
    by (auto simp add: is_export_error_def)
next
  assume "export_json e io h items path pretty wrapper meta fs = (Inl err, fs')"
  from export_json_failure[OF this]
  show "is_export_error (Inl err :: error + string)" and "fs' path = fs path" by simp_all
next
  assume "export_txt e io h items path header meta width fs = (Inl err, fs')"
  from export_txt_failure[OF this]
  show "is_export_error (Inl err :: error + string)" and "fs' path = fs path" by simp_all
qed
theorem C4_export_refuses_and_is_atomic_witness:
  "refused_item (Plain (PInt 123))
   \<and> is_export_error (fst (export_json sample_env sample_os sample_store [Plain (PInt 123)]
        ''out.json'' True True None [''out.json'' \<mapsto> ''old'']))
   \<and> snd (export_json sample_env sample_os sample_store [Plain (PInt 123)]
        ''out.json'' True True None [''out.json'' \<mapsto> ''old'']) = [''out.json'' \<mapsto> ''old'']
   \<and> is_export_error (fst (export_txt sample_env sample_os sample_store [Plain (PInt 123)]
        ''out.json'' True None 72 [''out.json'' \<mapsto> ''old'']))
   \<and> snd (export_txt sample_env sample_os sample_store [Plain (PInt 123)]
        ''out.json'' True None 72 [''out.json'' \<mapsto> ''old'']) = [''out.json'' \<mapsto> ''old'']
   \<and> fst (export_json sample_env (sample_os\<lparr>write_fails_after := Some 1\<rparr>) sample_store
        [Template sample_template] ''out.json'' True True None [''out.json'' \<mapsto> ''old''])
       = Inl (JSONExportError ExportFailed (Some OSError))
   \<and> snd (export_json sample_env (sample_os\<lparr>write_fails_after := Some 1\<rparr>) sample_store
        [Template sample_template] ''out.json'' True True None [''out.json'' \<mapsto> ''old''])
        ''out.json'' = Some ''old''
   \<and> fst (export_txt sample_env (sample_os\<lparr>replace_fails := True\<rparr>) sample_store
        [Template sample_template] ''out.txt'' True None 72 Map.empty)
       = Inl (TXTExportError ExportFailed (Some OSError))
   \<and> snd (export_txt sample_env (sample_os\<lparr>replace_fails := True\<rparr>) sample_store
        [Template sample_template] ''out.txt'' True None 72 Map.empty) ''out.txt'' = None"
proof -
  let ?fs = "[''out.json'' \<mapsto> ''old'']"
  let ?json = "export_json sample_env (sample_os\<lparr>write_fails_after := Some 1\<rparr>) sample_store
        [Template sample_template] ''out.json'' True True None ?fs"
  let ?txt = "export_txt sample_env (sample_os\<lparr>replace_fails := True\<rparr>) sample_store
        [Template sample_template] ''out.txt'' True None 72 Map.empty"
  have r: "\<exists>x \<in> set [Plain (PInt 123)]. refused_item x" by (simp add: refused_item_def)
  have flag: "disabled_by_default sample_template = PBool True"
    and ttl: "title sample_template = PStr ''Test Payload''"
    by (simp_all add: sample_template_def)
  have j: "fst ?json = Inl (JSONExportError ExportFailed (Some OSError))"
    using flag ttl
    by (simp add: export_json_def json_text_of_def json_sorted_def json_sort_key_def
        bind_err_def reraised_def json_reraise_def atomic_write_text_def cleanup_tmp_def
        sample_env_def sample_os_def)
  have t: "fst ?txt = Inl (TXTExportError ExportFailed (Some OSError))"
    using flag
    by (simp add: export_txt_def bind_err_def reraised_def txt_reraise_def
        atomic_write_text_def cleanup_tmp_def sample_env_def sample_os_def)
  from j have j': "?json = (Inl (JSONExportError ExportFailed (Some OSError)), snd ?json)"
    by (metis prod.collapse)
  from t have t': "?txt = (Inl (TXTExportError ExportFailed (Some OSError)), snd ?txt)"
    by (metis prod.collapse)
  have a: "is_export_error (fst (export_json sample_env sample_os sample_store
        [Plain (PInt 123)] ''out.json'' True True None ?fs))
     \<and> snd (export_json sample_env sample_os sample_store [Plain (PInt 123)]
        ''out.json'' True True None ?fs) = ?fs
     \<and> is_export_error (fst (export_txt sample_env sample_os sample_store [Plain (PInt 123)]
        ''out.json'' True None 72 ?fs))
     \<and> snd (export_txt sample_env sample_os sample_store [Plain (PInt 123)]
        ''out.json'' True None 72 ?fs) = ?fs"
    using r C4_export_refuses_and_is_atomic[where items = "[Plain (PInt 123)]"
        and e = sample_env and io = sample_os and h = sample_store and path = "''out.json''"
        and pretty = True and wrapper = True and meta = None and fs = ?fs and header = True
        and width = 72]
    by blast
  have b: "snd ?json ''out.json'' = ?fs ''out.json''"
    using j' C4_export_refuses_and_is_atomic[where items = "[Template sample_template]"
        and e = sample_env and io = "sample_os\<lparr>write_fails_after := Some 1\<rparr>"
        and h = sample_store and path = "''out.json''" and pretty = True and wrapper = True
        and meta = None and fs = ?fs and err = "JSONExportError ExportFailed (Some OSError)"
        and fs' = "snd ?json"]
    by blast
  have c: "snd ?txt ''out.txt'' = Map.empty ''out.txt''"
    using t' C4_export_refuses_and_is_atomic[where items = "[Template sample_template]"
        and e = sample_env and io = "sample_os\<lparr>replace_fails := True\<rparr>"
        and h = sample_store and path = "''out.txt''" and header = True and width = 72
        and meta = None and fs = Map.empty and err = "TXTExportError ExportFailed (Some OSError)"
        and fs' = "snd ?txt"]
    by blast
  from a b c j t show ?thesis by (simp add: refused_item_def)
qed

subsection \<open>Cloning and the history lists\<close>

lemma clone_with_updates_payload:
  "clone_with_updates r [Upd_payload p] = Inr r' \<Longrightarrow>
     r' = r\<lparr>payload := p\<rparr> \<and> encoding_applied r' = encoding_applied r
     \<and> obfuscation_applied r' = obfuscation_applied r \<and> tags r' = tags r"
  by (auto simp add: clone_with_updates_def replaced_def construct_Inr)

text \<open>
  The clone holds the very history list of the record it was cloned from, so appending to
  the clone's list appends to the original's.
\<close>

lemma apply_encoding_mutates_original:
  "apply_encoding_to_all [r] method h = (Inr out, h') \<Longrightarrow>
     cells h' (encoding_applied r) = cells h (encoding_applied r) @ [method]"
proof -
  assume a: "apply_encoding_to_all [r] method h = (Inr out, h')"
  then obtain new_payload where np: "encode_payload (payload r) (Some method) = Inr new_payload"
    by (cases "encode_payload (payload r) (Some method)") auto
  with a obtain new_item where
    ni: "clone_with_updates r [Upd_payload (PStr new_payload)] = Inr new_item"
    by (cases "clone_with_updates r [Upd_payload (PStr new_payload)]") auto
  from clone_with_updates_payload[OF ni]
  have same: "encoding_applied new_item = encoding_applied r" by simp
  from a np ni have "h' = add_encoding new_item method h" by simp
  with same show ?thesis by (simp add: add_encoding_def)
qed

lemma normalize_name_base64: "normalize_name (Some ''base64'') = ''base64''"
  by code_simp

lemma encode_payload_base64:
  "strip s \<noteq> [] \<Longrightarrow> encode_payload (PStr s) (Some ''base64'') = Inr (base64_encode s)"
  by (simp add: encode_payload_def normalize_name_base64 ENCODING_METHODS_def)

text \<open>
  Claim C2 fails on the code. Encoding the one-record batch \<open>[sample_template]\<close> with
  \<open>base64\<close> returns a clone with the new payload, and the encoding history of the
  original record, empty before the call, is \<open>['base64']\<close> after it.
\<close>

theorem C2_clone_shares_history_lists:
  "apply_encoding_to_all [sample_template] ''base64'' sample_store
     = (Inr [sample_template\<lparr>payload :=
               PStr (base64_encode ''<<XSS_TEMPLATE:TEST|CONTEXT=html|NON_EXECUTING>>'')\<rparr>],
        add_encoding sample_template ''base64'' sample_store)
   \<and> cells sample_store (encoding_applied sample_template) = []
   \<and> cells (add_encoding sample_template ''base64'' sample_store)
        (encoding_applied sample_template) = [''base64'']"
proof -
  let ?p = "''<<XSS_TEMPLATE:TEST|CONTEXT=html|NON_EXECUTING>>''"
  have p: "payload sample_template = PStr ?p" by (simp add: sample_template_def)
  have s: "strip ?p \<noteq> []" by code_simp
  have nb: "\<not> is_blank (PStr (base64_encode ?p))" by code_simp
  have "record_invariants (sample_template\<lparr>payload := PStr (base64_encode ?p)\<rparr>)"
    using sample_template_valid nb
    by (simp add: record_invariants_def selector_exclusive_def)
  then have c: "clone_with_updates sample_template [Upd_payload (PStr (base64_encode ?p))]
      = Inr (sample_template\<lparr>payload := PStr (base64_encode ?p)\<rparr>)"
    by (simp add: clone_with_updates_def replaced_def construct_Inr)
  have "apply_encoding_to_all [sample_template] ''base64'' sample_store
     = (Inr [sample_template\<lparr>payload := PStr (base64_encode ?p)\<rparr>],
        add_encoding sample_template ''base64'' sample_store)"
    by (simp add: p encode_payload_base64[OF s] c add_encoding_def)
  then show ?thesis by (simp add: add_encoding_def sample_store_def)
qed

subsection \<open>Errors that leave a pipeline run\<close>

text \<open>
  Claim C3 fails on the code. A run that exports to JSON with a metadata key that
  collides with a reserved key ends with the \<open>JSONExportError\<close> of the exporter, which
  is not a \<open>PipelineError\<close>: the export step of \<open>run\<close> is not wrapped.
\<close>

theorem C3_export_error_escapes_run:
  "fst (run_pipeline sample_env sample_os ''xss'' None None (Some ''html'') None None
          (Some ''json'') (Some ''out.json'') (Some [(''schema'', PStr ''x'')])
          sample_store Map.empty)
     = Inl (JSONExportError (MetaReservedKeys [''schema'']) None)
   \<and> \<not> is_pipeline_error
         (fst (run_pipeline sample_env sample_os ''xss'' None None (Some ''html'') None None
                 (Some ''json'') (Some ''out.json'') (Some [(''schema'', PStr ''x'')])
                 sample_store Map.empty))"
proof -
  have "fst (run_pipeline sample_env sample_os ''xss'' None None (Some ''html'') None None
          (Some ''json'') (Some ''out.json'') (Some [(''schema'', PStr ''x'')])
          sample_store Map.empty)
     = Inl (JSONExportError (MetaReservedKeys [''schema'']) None)"
    by code_simp
  then show ?thesis by (simp add: is_pipeline_error_def)
qed

subsection \<open>Errors before the export step are wrapped\<close>

lemma dropWhile_all: "\<forall>c \<in> set (dropWhile P t). P c \<Longrightarrow> \<forall>c \<in> set t. P c"
proof (induction t)
  case Nil
  then show ?case by simp
next
  case (Cons a t)
  show ?case
  proof (cases "P a")
    case True
    with Cons.prems have "\<forall>c \<in> set (dropWhile P t). P c" by simp
    from Cons.IH[OF this] True show ?thesis by simp
  next
    case False
    with Cons.prems show ?thesis by simp
  qed
qed

lemma strip_Nil_iff: "strip t = [] \<longleftrightarrow> (\<forall>c \<in> set t. isspace c)"
proof
  assume "strip t = []"
  then have "dropWhile isspace (rev (dropWhile isspace t)) = []"
    unfolding strip_def by (simp only: rev_is_Nil_conv)
  then have "\<forall>c \<in> set (rev (dropWhile isspace t)). isspace c"
    by (simp only: dropWhile_eq_Nil_conv)
  then have "\<forall>c \<in> set (dropWhile isspace t). isspace c"
    by (simp only: set_rev)
  then show "\<forall>c \<in> set t. isspace c" by (rule dropWhile_all)
next
  assume "\<forall>c \<in> set t. isspace c"
  then have d: "dropWhile isspace t = []" by (simp only: dropWhile_eq_Nil_conv)
  show "strip t = []" unfolding strip_def d by simp
qed

lemma b64_char_not_space: "\<not> isspace (b64_char n)"
proof -
  let ?alphabet = "''ABCDEFGHIJKLMNOPQRSTUVWXYZabcdefghijklmnopqrstuvwxyz0123456789+/''"
  have "b64_char n \<in> set ?alphabet"
    unfolding b64_char_def by (rule nth_mem) simp
  moreover have "\<forall>c \<in> set ?alphabet. \<not> isspace c"
    by (simp add: isspace_def codepoint_def)
  ultimately show ?thesis by blast
qed

lemma utf8_encode_Cons: "s \<noteq> [] \<Longrightarrow> \<exists>b bs. utf8_encode s = b # bs"
  by (cases s) (auto simp add: utf8_encode_def utf8_char_def Let_def)

lemma b64encode_head: "\<exists>rest. b64encode (b # bs) = b64_char (codepoint b div 4) # rest"
  by (cases "(b # bs)" rule: b64encode.cases) auto

lemma base64_encode_not_blank: "s \<noteq> [] \<Longrightarrow> \<not> is_blank (PStr (base64_encode s))"
proof -
  assume "s \<noteq> []"
  from utf8_encode_Cons[OF this] obtain b bs where "utf8_encode s = b # bs" by blast
  with b64encode_head[of b bs] obtain rest where
    "base64_encode s = b64_char (codepoint b div 4) # rest"
    by (auto simp add: base64_encode_def)
  then have "\<exists>c \<in> set (base64_encode s). \<not> isspace c"
    using b64_char_not_space by auto
  then show ?thesis by (simp add: is_blank_def strip_Nil_iff)
qed

lemma quote_byte_head: "\<exists>c rest. quote_byte b = c # rest \<and> \<not> isspace c"
  by (auto simp add: quote_byte_def url_unreserved_def isspace_def codepoint_def Let_def)

lemma url_encode_not_blank: "s \<noteq> [] \<Longrightarrow> \<not> is_blank (PStr (url_encode s))"
proof -
  assume "s \<noteq> []"
  from utf8_encode_Cons[OF this] obtain b bs where u: "utf8_encode s = b # bs" by blast
  from quote_byte_head[of b] obtain c rest where "quote_byte b = c # rest" "\<not> isspace c"
    by blast
  with u have "\<exists>c \<in> set (url_encode s). \<not> isspace c"
    by (auto simp add: url_encode_def)
  then show ?thesis by (simp add: is_blank_def strip_Nil_iff)
qed

lemma encode_payload_not_blank:
  "encode_payload p (Some method) = Inr new_payload \<Longrightarrow> \<not> is_blank (PStr new_payload)"
proof -
  assume a: "encode_payload p (Some method) = Inr new_payload"
  then obtain s where s: "p = PStr s" "strip s \<noteq> []"
    by (cases p) (auto simp add: encode_payload_def split: if_splits)
  then have ne: "s \<noteq> []" by (auto simp add: strip_def)
  from a s have "new_payload \<in> {url_encode s, base64_encode s, hex_encode s}"
    by (auto simp add: encode_payload_def ENCODING_METHODS_def split: option.splits if_splits)
  with url_encode_not_blank[OF ne] base64_encode_not_blank[OF ne] hex_encode_not_blank[OF s(2)]
  show ?thesis by auto
qed

lemma marker_has_visible_char:
  "TEMPLATE_MARKER_search s \<Longrightarrow> \<exists>c \<in> set s. \<not> isspace c \<and> c \<noteq> CHR '' ''"
proof -
  assume m: "TEMPLATE_MARKER_search s"
  have sp: "\<And>c. isspace c \<or> c = CHR '' '' \<Longrightarrow> lower_char c \<noteq> CHR ''t'' \<and> c \<noteq> CHR ''<''"
    by (auto simp add: isspace_def lower_char_def codepoint_def)
  show ?thesis
  proof (rule ccontr)
    assume "\<not> (\<exists>c \<in> set s. \<not> isspace c \<and> c \<noteq> CHR '' '')"
    then have all: "\<forall>c \<in> set s. isspace c \<or> c = CHR '' ''" by blast
    with sp have "CHR ''<'' \<notin> set s" and "\<forall>c \<in> set s. lower_char c \<noteq> CHR ''t''" by blast+
    with no_bracket_marker[of s] no_template_word[of s False] m show False
      by (simp add: TEMPLATE_MARKER_search_def)
  qed
qed

lemma concat_map_keeps: "(\<And>ch. ch \<in> set (f ch)) \<Longrightarrow> set s \<subseteq> set (concat (map f s))"
  by (induction s) auto

lemma comments_keeps_chars: "comments s = Inr t \<Longrightarrow> set s \<subseteq> set t \<and> TEMPLATE_MARKER_search s"
proof -
  assume a: "comments s = Inr t"
  let ?f = "\<lambda>ch. if isalnum ch \<and> codepoint ch mod 7 = 0 then ch # ''/*OBF*/'' else [ch]"
  from a have m: "TEMPLATE_MARKER_search s" and t: "t = concat (map ?f s)"
    by (auto simp add: comments_def ensure_educational_template_def bind_err_def
        split: if_splits)
  have "set s \<subseteq> set (concat (map ?f s))" by (rule concat_map_keeps) simp
  with m t show ?thesis by simp
qed

lemma whitespace_keeps_chars:
  "whitespace s = Inr t \<Longrightarrow> set s \<subseteq> set t \<and> TEMPLATE_MARKER_search s"
proof -
  assume a: "whitespace s = Inr t"
  let ?f = "\<lambda>ch. if ch = CHR '' '' then [CHR '' '', CHR 0x09, CHR '' ''] else [ch]"
  from a have m: "TEMPLATE_MARKER_search s" and t: "t = concat (map ?f s)"
    by (auto simp add: whitespace_def ensure_educational_template_def bind_err_def
        split: if_splits)
  have "set s \<subseteq> set (concat (map ?f s))" by (rule concat_map_keeps) simp
  with m t show ?thesis by simp
qed

lemma mixed_keeps_chars: "mixed s = Inr t \<Longrightarrow> set s \<subseteq> set t \<and> TEMPLATE_MARKER_search s"
proof -
  assume a: "mixed s = Inr t"
  then have m: "TEMPLATE_MARKER_search s"
    by (auto simp add: mixed_def ensure_educational_template_def bind_err_def split: if_splits)
  with a obtain u where u: "comments s = Inr u" "whitespace u = Inr t"
    by (cases "comments s")
       (auto simp add: mixed_def ensure_educational_template_def bind_err_def)
  from comments_keeps_chars[OF u(1)] whitespace_keeps_chars[OF u(2)] m show ?thesis by blast
qed

lemma obfuscate_payload_not_blank:
  "obfuscate_payload p (Some technique) = Inr new_payload \<Longrightarrow> \<not> is_blank (PStr new_payload)"
proof -
  assume a: "obfuscate_payload p (Some technique) = Inr new_payload"
  then obtain s where s: "p = PStr s" by (cases p) (auto simp add: obfuscate_payload_def)
  from a s obtain f where "f \<in> {comments, whitespace, mixed}" "f s = Inr new_payload"
    by (auto simp add: obfuscate_payload_def OBFUSCATION_MODES_def
        split: if_splits option.splits)
  with comments_keeps_chars whitespace_keeps_chars mixed_keeps_chars
  have "set s \<subseteq> set new_payload" "TEMPLATE_MARKER_search s" by blast+
  with marker_has_visible_char[of s] have "\<exists>c \<in> set new_payload. \<not> isspace c" by blast
  then show ?thesis by (simp add: is_blank_def strip_Nil_iff)
qed

lemma clone_new_payload:
  "record_invariants r \<Longrightarrow> \<not> is_blank p \<Longrightarrow>
     clone_with_updates r [Upd_payload p] = Inr (r\<lparr>payload := p\<rparr>)
     \<and> record_invariants (r\<lparr>payload := p\<rparr>)"
  by (simp add: clone_with_updates_def replaced_def construct_Inr record_invariants_def
      selector_exclusive_def)

lemma apply_encoding_wraps:
  "\<forall>t \<in> set items. record_invariants t \<Longrightarrow> apply_encoding_to_all items method h = (res, h') \<Longrightarrow>
     is_pipeline_error res \<or> (\<exists>out. res = Inr out \<and> (\<forall>t \<in> set out. record_invariants t))"
proof (induction items arbitrary: h res h')
  case Nil
  then show ?case by auto
next
  case (Cons item items)
  show ?case
  proof (cases "encode_payload (payload item) (Some method)")
    case (Inl err)
    with Cons.prems show ?thesis by (auto simp add: is_pipeline_error_def)
  next
    case (Inr new_payload)
    from Cons.prems have "record_invariants item" by simp
    from clone_new_payload[OF this encode_payload_not_blank[OF Inr]]
    have c: "clone_with_updates item [Upd_payload (PStr new_payload)]
        = Inr (item\<lparr>payload := PStr new_payload\<rparr>)"
      and v: "record_invariants (item\<lparr>payload := PStr new_payload\<rparr>)" by simp_all
    obtain r2 h2 where rec: "apply_encoding_to_all items method
        (add_encoding (item\<lparr>payload := PStr new_payload\<rparr>) method h) = (r2, h2)"
      by fastforce
    from Cons.prems have "\<forall>t \<in> set items. record_invariants t" by simp
    from Cons.IH[OF this rec] Cons.prems(2) Inr c rec v show ?thesis
      by (cases r2) (auto simp add: is_pipeline_error_def)
  qed
qed

lemma apply_obfuscation_wraps:
  "\<forall>t \<in> set items. record_invariants t \<Longrightarrow>
   apply_obfuscation_to_all items technique h = (res, h') \<Longrightarrow>
     is_pipeline_error res \<or> (\<exists>out. res = Inr out \<and> (\<forall>t \<in> set out. record_invariants t))"
proof (induction items arbitrary: h res h')
  case Nil
  then show ?case by auto
next
  case (Cons item items)
  show ?case
  proof (cases "obfuscate_payload (payload item) (Some technique)")
    case (Inl err)
    with Cons.prems show ?thesis by (auto simp add: is_pipeline_error_def)
  next
    case (Inr new_payload)
    from Cons.prems have "record_invariants item" by simp
    from clone_new_payload[OF this obfuscate_payload_not_blank[OF Inr]]
    have c: "clone_with_updates item [Upd_payload (PStr new_payload)]
        = Inr (item\<lparr>payload := PStr new_payload\<rparr>)"
      and v: "record_invariants (item\<lparr>payload := PStr new_payload\<rparr>)" by simp_all
    obtain r2 h2 where rec: "apply_obfuscation_to_all items technique
        (add_obfuscation (item\<lparr>payload := PStr new_payload\<rparr>) technique h) = (r2, h2)"
      by fastforce
    from Cons.prems have "\<forall>t \<in> set items. record_invariants t" by simp
    from Cons.IH[OF this rec] Cons.prems(2) Inr c rec v show ?thesis
      by (cases r2) (auto simp add: is_pipeline_error_def)
  qed
qed

text \<open>
  Up to the export step, a run on the global registry fails with nothing but a
  \<open>PipelineError\<close>: generation, encoding and obfuscation wrap their errors, and cloning a
  valid record with an encoded or obfuscated payload always passes validation.
\<close>

lemma run_without_export_wraps:
  "run_pipeline e io mname db os ctx encoding obfuscation None output_path meta h fs
     = (Inl err, h', fs') \<Longrightarrow> is_pipeline_error (Inl err :: error + PayloadTemplate list)"
proof -
  assume a: "run_pipeline e io mname db os ctx encoding obfuscation None output_path meta h fs
     = (Inl err, h', fs')"
  have ne: "\<not> given None" by (simp add: given_def falsy_def)
  obtain r1 h1 where g: "pipeline_generate registry e mname db os ctx h = (r1, h1)"
    by fastforce
  from pipeline_generate_cases[OF g] show ?thesis
  proof
    assume "is_pipeline_error r1"
    then obtain m cause where "r1 = Inl (PipelineError m cause)"
      by (auto simp add: is_pipeline_error_def split: sum.splits error.splits)
    with a g show ?thesis by (auto simp add: run_pipeline_def run_def is_pipeline_error_def)
  next
    assume "\<exists>items. r1 = Inr items \<and> items \<noteq> [] \<and> (\<forall>t \<in> set items. record_invariants t)"
    then obtain items where r1: "r1 = Inr items"
      and v1: "\<forall>t \<in> set items. record_invariants t" by blast
    obtain r2 h2 where s2: "(if given encoding then apply_encoding_to_all items (the encoding) h1
        else (Inr items, h1)) = (r2, h2)" by fastforce
    have c2: "is_pipeline_error r2 \<or> (\<exists>out. r2 = Inr out \<and> (\<forall>t \<in> set out. record_invariants t))"
      using s2 v1 apply_encoding_wraps[OF v1, of "the encoding" h1 r2 h2]
      by (auto split: if_splits)
    show ?thesis
    proof (cases r2)
      case (Inl err2)
      with c2 a g r1 s2 show ?thesis by (simp add: run_pipeline_def run_def)
    next
      case (Inr items2)
      with c2 have v2: "\<forall>t \<in> set items2. record_invariants t" by (simp add: is_pipeline_error_def)
      obtain r3 h3 where s3: "(if given obfuscation
          then apply_obfuscation_to_all items2 (the obfuscation) h2
          else (Inr items2, h2)) = (r3, h3)" by fastforce
      have c3: "is_pipeline_error r3 \<or> (\<exists>out. r3 = Inr out)"
        using s3 apply_obfuscation_wraps[OF v2, of "the obfuscation" h2 r3 h3]
        by (auto split: if_splits)
      from a g r1 s2 Inr s3 ne c3 show ?thesis
        by (cases r3) (auto simp add: run_pipeline_def run_def)
    qed
  qed
qed

subsection \<open>Registration\<close>

text \<open>The global registry is what the three decorators build, and a name registers once.\<close>

lemma registry_is_registered:
  "bind_err (register [] ''xss'' xss_generate_payloads False False) (\<lambda>r1.
     bind_err (register r1 ''sqli'' sqli_generate_payloads True False) (\<lambda>r2.
       register r2 ''cmd'' cmd_generate_payloads False True)) = Inr registry"
  by (simp add: register_def bind_err_def registry_def)

lemma register_twice:
  "map_of reg mname \<noteq> None \<Longrightarrow>
     register reg mname func rdb ros = Inl (RegistryError (AlreadyRegistered mname))"
  by (auto simp add: register_def dest: map_of_SomeD intro: rev_image_eqI)

end
